theory Spec2Isabelle
  imports Main "HOL-Library.Word"
begin

unbundle bit_operations_syntax

section \<open>Device memory\<close>

text \<open>
  The columns of \<^verbatim>\<open>copy_range.cu\<close> are C structs holding raw device pointers, and
  \<^verbatim>\<open>copy_range\<close> swaps those pointers and frees buffers. Device memory is therefore an
  explicit store. A pointer is a natural number, \<open>0\<close> being the null pointer; the block
  at address \<open>p\<close> lives in slot \<open>p - 1\<close> of the store; a released block is \<open>None\<close>.
  A block is a data buffer (one integer per element: the element's bit pattern, whatever
  the physical type \<^verbatim>\<open>T\<close>), a validity bitmap packed into 32-bit words
  (\<^verbatim>\<open>bit_mask_t\<close>), or a dictionary of a category column.
\<close>

type_synonym ptr = nat

datatype block = Data "int list" | Mask "32 word list" | Dict "string list"

type_synonym device = "block option list"

definition deref :: "device \<Rightarrow> ptr \<Rightarrow> block option" where
  "deref m p = (if p = 0 \<or> length m < p then None else m ! (p - 1))"

definition store :: "device \<Rightarrow> ptr \<Rightarrow> block \<Rightarrow> device" where
  "store m p b = (if p = 0 \<or> length m < p then m else m[p - 1 := Some b])"

definition device_alloc :: "device \<Rightarrow> block \<Rightarrow> ptr \<times> device" where
  "device_alloc m b = (Suc (length m), m @ [Some b])"

definition device_free :: "device \<Rightarrow> ptr \<Rightarrow> device" where
  "device_free m p = (if p = 0 \<or> length m < p then m else m[p - 1 := None])"

definition live :: "device \<Rightarrow> ptr list" where
  "live m = filter (\<lambda>p. deref m p \<noteq> None) [1..<Suc (length m)]"

definition data_at :: "device \<Rightarrow> ptr \<Rightarrow> int list" where
  "data_at m p = (case deref m p of Some (Data xs) \<Rightarrow> xs | _ \<Rightarrow> [])"

definition mask_at :: "device \<Rightarrow> ptr \<Rightarrow> 32 word list" where
  "mask_at m p = (case deref m p of Some (Mask ws) \<Rightarrow> ws | _ \<Rightarrow> [])"

definition dict_at :: "device \<Rightarrow> ptr \<Rightarrow> string list" where
  "dict_at m p = (case deref m p of Some (Dict ds) \<Rightarrow> ds | _ \<Rightarrow> [])"

section \<open>Columns, scalars and errors\<close>

text \<open>
  \<^verbatim>\<open>gdf_column\<close>, \<^verbatim>\<open>gdf_scalar\<close> and the type-tag enumeration are declared outside
  the given sources; the fields are the ones \<^verbatim>\<open>copy_range.cu\<close> reads and writes
  (\<^verbatim>\<open>data\<close>, \<^verbatim>\<open>valid\<close>, \<^verbatim>\<open>size\<close>, \<^verbatim>\<open>dtype\<close>, \<^verbatim>\<open>null_count\<close>,
  \<^verbatim>\<open>dtype_info.category\<close>). Sizes and indices (\<^verbatim>\<open>gdf_size_type\<close>,
  \<^verbatim>\<open>gdf_index_type\<close>) are signed 32-bit integers: 32-bit words read with \<open>sint\<close>
  and compared with \<open>\<le>s\<close>, whose arithmetic wraps around. The data of a scalar is
  the 8-byte union \<^verbatim>\<open>gdf_data\<close>, a 64-bit word.
\<close>

type_synonym gdf_size_type = "32 word"

type_synonym gdf_index_type = "32 word"

datatype gdf_dtype =
  GDF_invalid | GDF_INT8 | GDF_INT16 | GDF_INT32 | GDF_INT64
  | GDF_FLOAT32 | GDF_FLOAT64 | GDF_STRING_CATEGORY

record gdf_column =
  data :: ptr
  valid :: ptr
  size :: gdf_size_type
  dtype :: gdf_dtype
  null_count :: gdf_size_type
  category :: ptr

record gdf_scalar =
  scalar_data :: "64 word"
  scalar_dtype :: gdf_dtype
  scalar_is_valid :: bool

datatype gdf_error = GDF_SUCCESS | GDF_CUDA_ERROR | GDF_UNSUPPORTED_DTYPE

text \<open>
  Every failure of the source is a \<^verbatim>\<open>CUDF_EXPECTS\<close> that throws; the error names are
  those of the specification: \<open>TypeMismatchError\<close> is "Data type mismatch",
  \<open>RangeError\<close> is "Range is out of bounds", \<open>ReconciliationError\<close> is
  "Failed to synchronize NVCategory". An operation returns \<open>(e, m, c)\<close>: \<open>e = None\<close>
  when it returns normally and \<open>Some err\<close> when \<open>err\<close> propagates to the caller,
  \<open>m\<close> the device memory and \<open>c\<close> the destination column as the call leaves them.
  \<open>OutOfBounds\<close> is no error of the specification: it is the outcome of a kernel that
  would read or write outside the buffers its columns point to, which is undefined in the
  source.
\<close>

datatype error =
  ValidationError | TypeMismatchError | RangeError | TypeError | ReconciliationError
  | OutOfBounds

type_synonym outcome = "error option \<times> device \<times> gdf_column"

section \<open>Null-bitmap accessor\<close>

text \<open>
  Modelled from the spec: \<^verbatim>\<open>bit_mask::is_valid\<close> and the bit set/clear operations are
  not in the given sources. Section 4.1: bit \<open>index\<close> of a bitmap packed into
  fixed-width words; the word is \<^verbatim>\<open>bit_mask_t\<close>, 32 bits.
\<close>

definition is_valid :: "32 word list \<Rightarrow> nat \<Rightarrow> bool" where
  "is_valid ws i = bit (ws ! (i div 32)) (i mod 32)"

definition set_valid :: "32 word list \<Rightarrow> nat \<Rightarrow> 32 word list" where
  "set_valid ws i = ws[i div 32 := set_bit (i mod 32) (ws ! (i div 32))]"

definition clear_valid :: "32 word list \<Rightarrow> nat \<Rightarrow> 32 word list" where
  "clear_valid ws i = ws[i div 32 := unset_bit (i mod 32) (ws ! (i div 32))]"

definition count_unset_bits :: "32 word list \<Rightarrow> nat \<Rightarrow> nat" where
  "count_unset_bits ws n = fold (\<lambda>i k. if is_valid ws i then k else Suc k) [0..<n] 0"

section \<open>Element sources\<close>

text \<open>
  \<^verbatim>\<open>scalar_factory\<close> and \<^verbatim>\<open>column_range_factory\<close> with their functors. A functor
  holds what the source's struct holds: the scalar functor a value of type \<^verbatim>\<open>T\<close> and a
  flag, the column-range functor two raw pointers and the offset \<^verbatim>\<open>begin\<close>. Its
  \<^verbatim>\<open>data\<close> and \<^verbatim>\<open>valid\<close> read device memory at \<^verbatim>\<open>begin + index\<close>, a 32-bit sum.

  The scalar factory copies the first \<^verbatim>\<open>sizeof(T)\<close> bytes of the union into a \<^verbatim>\<open>T\<close>
  (\<^verbatim>\<open>memcpy(&val, &value.data, sizeof(T))\<close>): on the little-endian device these are the
  low-order bytes. \<open>type_pun\<close> is that copy, \<^verbatim>\<open>T\<close> being the physical type of the
  tag: an element of an integer type is its signed value, an element of a floating-point
  type its bit pattern, and a category code is a 32-bit integer.
\<close>

fun size_of :: "gdf_dtype \<Rightarrow> nat" where
  "size_of GDF_invalid = 0"
| "size_of GDF_INT8 = 1"
| "size_of GDF_INT16 = 2"
| "size_of GDF_INT32 = 4"
| "size_of GDF_INT64 = 8"
| "size_of GDF_FLOAT32 = 4"
| "size_of GDF_FLOAT64 = 8"
| "size_of GDF_STRING_CATEGORY = 4"

definition is_floating :: "gdf_dtype \<Rightarrow> bool" where
  "is_floating t = (t = GDF_FLOAT32 \<or> t = GDF_FLOAT64)"

definition type_pun :: "gdf_dtype \<Rightarrow> 64 word \<Rightarrow> int" where
  "type_pun t d =
     (if is_floating t then take_bit (8 * size_of t) (uint d)
      else signed_take_bit (8 * size_of t - 1) (uint d))"

datatype factory = scalar_factory gdf_scalar | column_range_factory gdf_column gdf_index_type

datatype source_functor =
  scalar_functor int bool | column_range_functor ptr ptr gdf_index_type

fun make_functor :: "gdf_dtype \<Rightarrow> factory \<Rightarrow> source_functor" where
  "make_functor t (scalar_factory v) =
     scalar_functor (type_pun t (scalar_data v)) (scalar_is_valid v)"
| "make_functor t (column_range_factory c b) = column_range_functor (data c) (valid c) b"

fun functor_data :: "device \<Rightarrow> source_functor \<Rightarrow> gdf_index_type \<Rightarrow> int" where
  "functor_data m (scalar_functor v b) index = v"
| "functor_data m (column_range_functor column_data bitmask b) index =
     data_at m column_data ! nat (sint (b + index))"

fun functor_valid :: "device \<Rightarrow> source_functor \<Rightarrow> gdf_index_type \<Rightarrow> bool" where
  "functor_valid m (scalar_functor v b) index = b"
| "functor_valid m (column_range_functor column_data bitmask b) index =
     is_valid (mask_at m bitmask) (nat (sint (b + index)))"

section \<open>The typed range copy kernel\<close>

text \<open>
  Modelled from the spec: the type dispatcher is not in the given sources. Section 4.4:
  a type tag selects an instantiation of the kernel; an unrecognised tag is a
  \<open>TypeError\<close>. The fixed-width numeric tags and the category tag are recognised.
\<close>

definition type_dispatcher :: "gdf_dtype \<Rightarrow> bool" where
  "type_dispatcher t = (t \<noteq> GDF_invalid)"

text \<open>
  Modelled from the spec: \<^verbatim>\<open>detail::copy_range\<close> (in \<^verbatim>\<open>copy_range.cuh\<close>) is not in
  the given sources. Section 4.3 and 4.5: the destination range is validated inside the
  kernel path, before any write (section 7); then for every logical index \<open>i\<close> of
  \<open>[0, end - begin)\<close> the kernel writes the source's value into
  \<open>destination.data[begin + i]\<close> and sets or clears the validity bit at \<open>begin + i\<close>
  according to the source's validity; after all writes it recomputes \<open>null_count\<close> as
  the number of unset bits in \<open>[0, size)\<close>; a zero-length range is a no-op. The
  source is read in the memory the kernel starts from: the workers are unordered.

  Sections 4.1 and 4.2 leave to the caller that no access falls outside the buffers. The
  model makes that explicit: \<open>writable\<close> says that the destination's buffer and bitmap
  hold its \<open>size\<close> elements and bits, \<open>readable\<close> that the \<open>n\<close> elements and bits
  a column-range source is asked for lie inside its buffers at indices that do not wrap;
  a kernel for which one of them fails ends in \<open>OutOfBounds\<close> and writes nothing.
\<close>

definition write_data :: "device \<Rightarrow> source_functor \<Rightarrow> nat \<Rightarrow> nat \<Rightarrow> int list \<Rightarrow> int list" where
  "write_data m f b n xs = fold (\<lambda>i d. d[b + i := functor_data m f (of_nat i)]) [0..<n] xs"

definition write_mask ::
  "device \<Rightarrow> source_functor \<Rightarrow> nat \<Rightarrow> nat \<Rightarrow> 32 word list \<Rightarrow> 32 word list" where
  "write_mask m f b n ws =
     fold (\<lambda>i w. if functor_valid m f (of_nat i) then set_valid w (b + i)
                 else clear_valid w (b + i)) [0..<n] ws"

definition writable :: "device \<Rightarrow> gdf_column \<Rightarrow> bool" where
  "writable m c =
     (nat (sint (size c)) \<le> length (data_at m (data c))
      \<and> nat (sint (size c)) \<le> 32 * length (mask_at m (valid c)))"

fun readable :: "device \<Rightarrow> source_functor \<Rightarrow> nat \<Rightarrow> bool" where
  "readable m (scalar_functor v b) n = True"
| "readable m (column_range_functor column_data bitmask b) n =
     (0 \<le> sint b \<and> sint b + int n \<le> 2147483648
      \<and> nat (sint b) + n \<le> length (data_at m column_data)
      \<and> nat (sint b) + n \<le> 32 * length (mask_at m bitmask))"

definition detail_copy_range ::
  "device \<Rightarrow> gdf_column \<Rightarrow> factory \<Rightarrow> gdf_index_type \<Rightarrow> gdf_index_type \<Rightarrow> outcome" where
  "detail_copy_range m out_column input begin end =
     (if \<not> (0 \<le>s begin \<and> begin \<le>s end \<and> end \<le>s size out_column)
      then (Some RangeError, m, out_column)
      else if \<not> type_dispatcher (dtype out_column)
      then (Some TypeError, m, out_column)
      else if begin = end then (None, m, out_column)
      else
        let f = make_functor (dtype out_column) input;
            b = nat (sint begin);
            n = nat (sint end - sint begin)
        in if \<not> (writable m out_column \<and> readable m f n)
           then (Some OutOfBounds, m, out_column)
           else
             let new_data = write_data m f b n (data_at m (data out_column));
                 new_mask = write_mask m f b n (mask_at m (valid out_column));
                 m1 = store m (data out_column) (Data new_data);
                 m2 = store m1 (valid out_column) (Mask new_mask)
             in (None, m2,
                 out_column\<lparr>null_count :=
                   of_nat (count_unset_bits new_mask (nat (sint (size out_column))))\<rparr>))"

section \<open>Collaborators of the category path\<close>

text \<open>
  Modelled from the spec: \<^verbatim>\<open>validate\<close> is not in the given sources. Section 4.5:
  structural validation rejects a null data pointer with nonzero size.
\<close>

definition validate :: "gdf_column \<Rightarrow> bool" where
  "validate c = (\<not> (data c = 0 \<and> size c \<noteq> 0))"

text \<open>
  Modelled from the spec: \<^verbatim>\<open>cudf::copy\<close> is not in the given sources. Section 4.6,
  step 1: a temporary copy of a column, owning fresh copies of the data buffer, the bitmap
  and the dictionary.
\<close>

definition copy :: "device \<Rightarrow> gdf_column \<Rightarrow> gdf_column \<times> device" where
  "copy m c =
     (let (d, m1) = device_alloc m (Data (data_at m (data c)));
          (v, m2) = device_alloc m1 (Mask (mask_at m (valid c)));
          (k, m3) = device_alloc m2 (Dict (dict_at m (category c)))
      in (c\<lparr>data := d, valid := v, category := k\<rparr>, m3))"

text \<open>
  Modelled from the spec: \<^verbatim>\<open>gdf_column_free\<close> is not in the given sources. Section 4.6,
  step 5: releasing a column releases its buffer, its bitmap and its dictionary.
\<close>

definition gdf_column_free :: "device \<Rightarrow> gdf_column \<Rightarrow> device" where
  "gdf_column_free m c =
     device_free (device_free (device_free m (data c)) (valid c)) (category c)"

text \<open>
  Modelled from the spec: \<^verbatim>\<open>sync_column_categories\<close> is not in the given sources, and
  the specification keeps the dictionary union itself opaque. Section 4.6, step 2: it is
  invoked against the original pair and writes the reconciled encodings into the temporary
  pair; the bitmaps of the temporaries are not preserved. The opaque transform is the
  parameter \<open>reconcile\<close>: from the contents (codes, bitmap, dictionary) of the two
  originals and of the two temporaries it yields a status and the contents the two
  temporaries are left with.
\<close>

type_synonym contents = "int list \<times> 32 word list \<times> string list"

type_synonym reconciler =
  "contents \<times> contents \<Rightarrow> contents \<times> contents \<Rightarrow> gdf_error \<times> contents \<times> contents"

definition contents_of :: "device \<Rightarrow> gdf_column \<Rightarrow> contents" where
  "contents_of m c = (data_at m (data c), mask_at m (valid c), dict_at m (category c))"

definition put_contents :: "device \<Rightarrow> gdf_column \<Rightarrow> contents \<Rightarrow> device" where
  "put_contents m c x =
     (case x of (xs, ws, ds) \<Rightarrow>
        store (store (store m (data c) (Data xs)) (valid c) (Mask ws)) (category c) (Dict ds))"

definition sync_column_categories ::
  "reconciler \<Rightarrow> device \<Rightarrow> gdf_column \<times> gdf_column \<Rightarrow> gdf_column \<times> gdf_column
     \<Rightarrow> gdf_error \<times> device" where
  "sync_column_categories reconcile m input_cols temp_cols =
     (case reconcile (contents_of m (fst input_cols), contents_of m (snd input_cols))
                     (contents_of m (fst temp_cols), contents_of m (snd temp_cols)) of
        (status, x_out, x_in) \<Rightarrow>
          (status, put_contents (put_contents m (fst temp_cols) x_out) (snd temp_cols) x_in))"

section \<open>The public operations\<close>

text \<open>
  \<^verbatim>\<open>copy_range\<close> and \<^verbatim>\<open>fill\<close> of \<^verbatim>\<open>copy_range.cu\<close>, statement by statement. The
  kernel \<^verbatim>\<open>detail::copy_range\<close> they call is the parameter \<open>kern\<close>, so that what
  is proved of the checks made here holds whatever the kernel does. A throwing
  \<^verbatim>\<open>CUDF_EXPECTS\<close> leaves the function at once: nothing after it runs. The count
  \<^verbatim>\<open>out_end - out_begin\<close> and the sum \<^verbatim>\<open>in_begin + num_elements\<close> are 32-bit and
  wrap around; the comparisons are signed.
\<close>

type_synonym kernel =
  "device \<Rightarrow> gdf_column \<Rightarrow> factory \<Rightarrow> gdf_index_type \<Rightarrow> gdf_index_type \<Rightarrow> outcome"

definition swap_with :: "gdf_column \<Rightarrow> gdf_column \<Rightarrow> gdf_column" where
  "swap_with a b =
     a\<lparr>data := data b, valid := valid b, null_count := null_count b, category := category b\<rparr>"

definition copy_range ::
  "kernel \<Rightarrow> reconciler \<Rightarrow> device \<Rightarrow> gdf_column \<Rightarrow> gdf_column
     \<Rightarrow> gdf_index_type \<Rightarrow> gdf_index_type \<Rightarrow> gdf_index_type \<Rightarrow> outcome" where
  "copy_range kern reconcile m out_column in_column out_begin out_end in_begin =
     (let num_elements = out_end - out_begin in
      if num_elements \<noteq> 0 then
        if \<not> validate in_column then (Some ValidationError, m, out_column)
        else if \<not> validate out_column then (Some ValidationError, m, out_column)
        else if dtype out_column \<noteq> dtype in_column
        then (Some TypeMismatchError, m, out_column)
        else if \<not> (0 \<le>s in_begin \<and> in_begin + num_elements \<le>s size in_column)
        then (Some RangeError, m, out_column)
        else if dtype out_column = GDF_STRING_CATEGORY then
          (let (temp_out, m1) = copy m out_column;
               (temp_in, m2) = copy m1 in_column;
               (status, m3) =
                 sync_column_categories reconcile m2 (out_column, in_column) (temp_out, temp_in)
           in if status \<noteq> GDF_SUCCESS then (Some ReconciliationError, m3, out_column)
              else
                (case kern m3 temp_out (column_range_factory temp_in in_begin)
                        out_begin out_end of
                   (Some e, m4, t) \<Rightarrow> (Some e, m4, out_column)
                 | (None, m4, t) \<Rightarrow>
                     (None,
                      gdf_column_free (gdf_column_free m4 (swap_with t out_column)) temp_in,
                      swap_with out_column t)))
        else kern m out_column (column_range_factory in_column in_begin) out_begin out_end
      else (None, m, out_column))"

definition fill ::
  "kernel \<Rightarrow> device \<Rightarrow> gdf_column \<Rightarrow> gdf_scalar \<Rightarrow> gdf_index_type \<Rightarrow> gdf_index_type
     \<Rightarrow> outcome" where
  "fill kern m column v begin end =
     (if end \<noteq> begin then
        if \<not> validate column then (Some ValidationError, m, column)
        else if dtype column \<noteq> scalar_dtype v then (Some TypeMismatchError, m, column)
        else kern m column (scalar_factory v) begin end
      else (None, m, column))"

section \<open>The device allocator\<close>

text \<open>
  \<^verbatim>\<open>rmmAlloc\<close> of \<^verbatim>\<open>memory.cpp\<close>. The out-pointer \<^verbatim>\<open>void **ptr\<close> is the address of
  a host slot (\<open>0\<close> is the null out-pointer); \<open>slots\<close> maps a slot to the pointer it
  holds. \<^verbatim>\<open>cudaMalloc\<close> is the CUDA runtime, a parameter: from the slots, the
  out-pointer and the size it yields an error code and the slots it leaves. The
  \<^verbatim>\<open>LogIt\<close> object records one event on every exit, with the pointer \<^verbatim>\<open>setPointer\<close>
  gave it (\<open>0\<close> otherwise); the time stamps, the device and the stream are left out.
\<close>

datatype cudaError_t = cudaSuccess | cudaErrorMemoryAllocation | cudaErrorOther nat

datatype rmmError_t =
  RMM_SUCCESS | RMM_ERROR_CUDA_ERROR | RMM_ERROR_INVALID_ARGUMENT
  | RMM_ERROR_OUT_OF_MEMORY | RMM_ERROR_IO

datatype MemEvent_t = Alloc | Realloc | Free

record rmm_state =
  slots :: "nat \<Rightarrow> ptr"
  theLog :: "(MemEvent_t \<times> ptr \<times> nat) list"

type_synonym cuda_malloc = "(nat \<Rightarrow> ptr) \<Rightarrow> nat \<Rightarrow> nat \<Rightarrow> cudaError_t \<times> (nat \<Rightarrow> ptr)"

definition RMM_CHECK_CUDA :: "cudaError_t \<Rightarrow> rmmError_t option" where
  "RMM_CHECK_CUDA cudaError =
     (if cudaError = cudaErrorMemoryAllocation then Some RMM_ERROR_OUT_OF_MEMORY
      else if cudaError \<noteq> cudaSuccess then Some RMM_ERROR_CUDA_ERROR
      else None)"

definition log_record :: "rmm_state \<Rightarrow> MemEvent_t \<Rightarrow> ptr \<Rightarrow> nat \<Rightarrow> rmm_state" where
  "log_record st ev p sz = st\<lparr>theLog := theLog st @ [(ev, p, sz)]\<rparr>"

definition rmmAlloc :: "cuda_malloc \<Rightarrow> rmm_state \<Rightarrow> nat \<Rightarrow> nat \<Rightarrow> rmmError_t \<times> rmm_state" where
  "rmmAlloc cudaMalloc st ptr sz =
     (if ptr = 0 \<and> sz = 0 then (RMM_SUCCESS, log_record st Alloc 0 sz)
      else if sz = 0
      then (RMM_SUCCESS, log_record (st\<lparr>slots := (slots st)(ptr := 0)\<rparr>) Alloc 0 sz)
      else if ptr = 0 then (RMM_ERROR_INVALID_ARGUMENT, log_record st Alloc 0 sz)
      else
        (case cudaMalloc (slots st) ptr sz of
           (cudaError, slots') \<Rightarrow>
             (case RMM_CHECK_CUDA cudaError of
                Some e \<Rightarrow> (e, log_record (st\<lparr>slots := slots'\<rparr>) Alloc 0 sz)
              | None \<Rightarrow> (RMM_SUCCESS, log_record (st\<lparr>slots := slots'\<rparr>) Alloc (slots' ptr) sz))))"

section \<open>Reading a column\<close>

text \<open>
  What the claims observe of a column in a given memory: the element and the validity bit
  at a logical index, the string a category code stands for, the value of a scalar (the
  member of the union that its type tag selects), and the data-model invariants. A column
  is allocated when its pointers are null or addresses the allocator has handed out. It
  is well formed when its data buffer and its bitmap hold at least \<open>size\<close> elements
  and bits and the dispatcher recognises its type tag.
\<close>

definition element :: "device \<Rightarrow> gdf_column \<Rightarrow> int \<Rightarrow> int" where
  "element m c i = data_at m (data c) ! nat i"

definition valid_bit :: "device \<Rightarrow> gdf_column \<Rightarrow> int \<Rightarrow> bool" where
  "valid_bit m c i = is_valid (mask_at m (valid c)) (nat i)"



definition allocated :: "device \<Rightarrow> gdf_column \<Rightarrow> bool" where
  "allocated m c = (data c \<le> length m \<and> valid c \<le> length m \<and> category c \<le> length m)"


text \<open>
  The state the category path of \<^verbatim>\<open>copy_range\<close> is in after its call of
  \<^verbatim>\<open>sync_column_categories\<close>: the status, the memory and the two temporaries.
\<close>

definition reconciliation ::
  "reconciler \<Rightarrow> device \<Rightarrow> gdf_column \<Rightarrow> gdf_column
     \<Rightarrow> gdf_error \<times> device \<times> gdf_column \<times> gdf_column" where
  "reconciliation reconcile m out_column in_column =
     (let (temp_out, m1) = copy m out_column;
          (temp_in, m2) = copy m1 in_column;
          (status, m3) =
            sync_column_categories reconcile m2 (out_column, in_column) (temp_out, temp_in)
      in (status, m3, temp_out, temp_in))"

definition unset_bits :: "device \<Rightarrow> gdf_column \<Rightarrow> nat set" where
  "unset_bits m c =
     {i \<in> {0..<nat (sint (size c))}. \<not> is_valid (mask_at m (valid c)) i}"

definition null_count_ok :: "device \<Rightarrow> gdf_column \<Rightarrow> bool" where
  "null_count_ok m c = (sint (null_count c) = int (card (unset_bits m c)))"

section \<open>Concrete columns\<close>

text \<open>
  The columns of the two scenarios of section 8 of the specification, and a pair of
  category columns whose dictionaries differ, each with the memory that holds it.
\<close>

definition scenario_memory :: device where
  "scenario_memory =
     [Some (Data [0, 0, 0, 0, 0]), Some (Mask [31]),
      Some (Data [10, 20, 30, 40, 50]), Some (Mask [31])]"

definition scenario_dest :: gdf_column where
  "scenario_dest =
     \<lparr>data = 1, valid = 2, size = 5, dtype = GDF_INT32, null_count = 0, category = 0\<rparr>"

definition scenario_source :: gdf_column where
  "scenario_source =
     \<lparr>data = 3, valid = 4, size = 5, dtype = GDF_INT32, null_count = 0, category = 0\<rparr>"

definition fill_memory :: device where
  "fill_memory = [Some (Data [1, 2, 3, 4]), Some (Mask [15])]"

definition fill_column :: gdf_column where
  "fill_column =
     \<lparr>data = 1, valid = 2, size = 4, dtype = GDF_INT32, null_count = 0, category = 0\<rparr>"

definition fill_scalar :: gdf_scalar where
  "fill_scalar = \<lparr>scalar_data = 7, scalar_dtype = GDF_INT32, scalar_is_valid = False\<rparr>"

definition category_memory :: device where
  "category_memory =
     [Some (Data [0, 0]), Some (Mask [3]), Some (Dict [''a'']),
      Some (Data [0, 0]), Some (Mask [3]), Some (Dict [''b''])]"

definition category_dest :: gdf_column where
  "category_dest =
     \<lparr>data = 1, valid = 2, size = 2, dtype = GDF_STRING_CATEGORY, null_count = 0,
      category = 3\<rparr>"

definition category_source :: gdf_column where
  "category_source =
     \<lparr>data = 4, valid = 5, size = 2, dtype = GDF_STRING_CATEGORY, null_count = 0,
      category = 6\<rparr>"

text \<open>
  Modelled from the spec: one dictionary synchronization, as the glossary describes it.
  The merged dictionary is the destination's followed by the source's values it lacks;
  the codes of both columns are remapped to it; the bitmaps of the temporaries are kept.
\<close>

fun index_of :: "string list \<Rightarrow> string \<Rightarrow> nat" where
  "index_of [] s = 0"
| "index_of (d # ds) s = (if d = s then 0 else Suc (index_of ds s))"

definition remap :: "string list \<Rightarrow> string list \<Rightarrow> int list \<Rightarrow> int list" where
  "remap merged dict codes = map (\<lambda>k. int (index_of merged (dict ! nat k))) codes"

definition reconcile_union :: reconciler where
  "reconcile_union originals temps =
     (case (originals, temps) of
        (((xo, wo, ko), (xi, wi, ki)), ((txo, two, tko), (txi, twi, tki))) \<Rightarrow>
          (let merged = ko @ filter (\<lambda>s. s \<notin> set ko) ki
           in (GDF_SUCCESS, (remap merged ko xo, two, merged),
               (remap merged ki xi, twi, merged))))"

text \<open>A synchronization that reports a failure and leaves the temporaries as they are.\<close>

definition reconcile_fails :: reconciler where
  "reconcile_fails originals temps = (GDF_CUDA_ERROR, fst temps, snd temps)"

text \<open>A kernel that does nothing and never fails.\<close>

definition idle_kernel :: kernel where
  "idle_kernel m c input begin end = (None, m, c)"

section \<open>Facts about device memory\<close>

lemma length_store: "length (store m p b) = length m"
  by (simp add: store_def)

lemma deref_store_same: "p \<noteq> 0 \<Longrightarrow> p \<le> length m \<Longrightarrow> deref (store m p b) p = Some b"
  by (simp add: store_def deref_def)

lemma deref_store_other: "q \<noteq> p \<Longrightarrow> deref (store m p b) q = deref m q"
  by (cases p; cases q) (auto simp: store_def deref_def nth_list_update)

lemma length_device_free: "length (device_free m p) = length m"
  by (simp add: device_free_def)

lemma deref_free_other: "q \<noteq> p \<Longrightarrow> deref (device_free m p) q = deref m q"
  by (cases p; cases q) (auto simp: device_free_def deref_def nth_list_update)

lemma deref_free_same: "deref (device_free m p) p = None"
  by (auto simp: device_free_def deref_def)

lemma deref_append_old: "q \<le> length m \<Longrightarrow> deref (m @ xs) q = deref m q"
  by (cases q) (auto simp: deref_def nth_append)

lemma deref_append_new: "deref (m @ [x]) (Suc (length m)) = x"
  by (simp add: deref_def)

lemma deref_beyond: "length m < q \<Longrightarrow> deref m q = None"
  by (simp add: deref_def)

lemma data_at_nonempty:
  "data_at m p \<noteq> [] \<Longrightarrow> p \<noteq> 0 \<and> p \<le> length m \<and> deref m p = Some (Data (data_at m p))"
  by (auto simp: data_at_def deref_def split: option.splits block.splits if_splits)

lemma mask_at_nonempty:
  "mask_at m p \<noteq> [] \<Longrightarrow> p \<noteq> 0 \<and> p \<le> length m \<and> deref m p = Some (Mask (mask_at m p))"
  by (auto simp: mask_at_def deref_def split: option.splits block.splits if_splits)

section \<open>Facts about the bitmap\<close>

lemma length_set_valid: "length (set_valid ws i) = length ws"
  by (simp add: set_valid_def)

lemma length_clear_valid: "length (clear_valid ws i) = length ws"
  by (simp add: clear_valid_def)

lemma split_index: "(j::nat) = i \<longleftrightarrow> j div 32 = i div 32 \<and> j mod 32 = i mod 32"
  by (metis div_mult_mod_eq)

lemma is_valid_set_valid:
  "i div 32 < length ws \<Longrightarrow> is_valid (set_valid ws i) j = (j = i \<or> is_valid ws j)"
  by (auto simp: is_valid_def set_valid_def nth_list_update bit_set_bit_iff split_index [of j i])

lemma is_valid_clear_valid:
  "i div 32 < length ws \<Longrightarrow> is_valid (clear_valid ws i) j = (j \<noteq> i \<and> is_valid ws j)"
  by (auto simp: is_valid_def clear_valid_def nth_list_update bit_unset_bit_iff split_index [of j i])

lemma count_unset_bits_card:
  "count_unset_bits ws n = card {i. i < n \<and> \<not> is_valid ws i}"
proof (induction n)
  case 0
  then show ?case by (simp add: count_unset_bits_def)
next
  case (Suc n)
  have step: "count_unset_bits ws (Suc n) =
      (if is_valid ws n then count_unset_bits ws n else Suc (count_unset_bits ws n))"
    by (simp add: count_unset_bits_def)
  have set_eq: "{i. i < Suc n \<and> \<not> is_valid ws i} =
      (if is_valid ws n then {i. i < n \<and> \<not> is_valid ws i}
       else insert n {i. i < n \<and> \<not> is_valid ws i})"
    by (auto simp: less_Suc_eq)
  show ?case
    by (simp add: step set_eq Suc.IH)
qed

section \<open>Facts about 32-bit arithmetic\<close>

lemma sint_bounds32: "- 2147483648 \<le> sint (a :: 32 word)" "sint (a :: 32 word) < 2147483648"
  using sint_ge [of a] sint_lt [of a] by simp_all

lemma sint_sub32:
  "- 2147483648 \<le> sint a - sint b \<Longrightarrow> sint a - sint b < 2147483648 \<Longrightarrow>
   sint (a - b :: 32 word) = sint a - sint b"
  by (simp add: sint_word_ariths signed_take_bit_int_eq_self)

lemma sint_sub_wrap32:
  assumes "sint a - sint b < - 2147483648"
  shows "sint (a - b :: 32 word) = sint a - sint b + 4294967296"
proof -
  define x where "x = sint a - sint b"
  have "a - b = word_of_int x" by (simp add: x_def)
  then have s: "sint (a - b) = (x + 2147483648) mod 4294967296 - 2147483648"
    by (simp add: int_word_sint)
  from assms sint_bounds32 [of a] sint_bounds32 [of b]
  have r: "0 \<le> x + 2147483648 + 4294967296" "x + 2147483648 + 4294967296 < 4294967296"
    by (simp_all add: x_def)
  have "(x + 2147483648) mod 4294967296 = (x + 2147483648 + 4294967296) mod 4294967296"
    by (simp only: mod_add_self2)
  also from r have "\<dots> = x + 2147483648 + 4294967296"
    by (rule mod_pos_pos_trivial)
  finally show ?thesis using s by (simp add: x_def)
qed

lemma sint_add32:
  "- 2147483648 \<le> sint a + sint b \<Longrightarrow> sint a + sint b < 2147483648 \<Longrightarrow>
   sint (a + b :: 32 word) = sint a + sint b"
  by (simp add: sint_word_ariths signed_take_bit_int_eq_self)

lemma sint_of_nat32: "n < 2147483648 \<Longrightarrow> sint (of_nat n :: 32 word) = int n"
  by (simp add: signed_of_nat signed_take_bit_int_eq_self)



lemma sint_inject32: "sint (a :: 32 word) = sint b \<longleftrightarrow> a = b"
  by (auto intro: signed_word_eqI)

section \<open>Facts about the kernel\<close>

lemma length_write_data: "length (write_data m f b n xs) = length xs"
  by (induction n) (simp_all add: write_data_def)

lemma write_data_nth:
  "j < length xs \<Longrightarrow>
   write_data m f b n xs ! j =
     (if b \<le> j \<and> j < b + n then functor_data m f (of_nat (j - b)) else xs ! j)"
proof (induction n)
  case 0
  then show ?case by (simp add: write_data_def)
next
  case (Suc n)
  have step: "write_data m f b (Suc n) xs =
      (write_data m f b n xs)[b + n := functor_data m f (of_nat n)]"
    by (simp add: write_data_def)
  show ?case
  proof (cases "j = b + n")
    case True
    with Suc.prems show ?thesis
      by (simp add: step length_write_data)
  next
    case False
    with Suc show ?thesis
      by (auto simp: step nth_list_update length_write_data)
  qed
qed

lemma length_write_mask: "length (write_mask m f b n ws) = length ws"
  by (induction n) (simp_all add: write_mask_def length_set_valid length_clear_valid)

lemma write_mask_valid:
  "b + n \<le> 32 * length ws \<Longrightarrow>
   is_valid (write_mask m f b n ws) j =
     (if b \<le> j \<and> j < b + n then functor_valid m f (of_nat (j - b)) else is_valid ws j)"
proof (induction n)
  case 0
  then show ?case by (auto simp: write_mask_def)
next
  case (Suc n)
  have step: "write_mask m f b (Suc n) ws =
      (if functor_valid m f (of_nat n) then set_valid (write_mask m f b n ws) (b + n)
       else clear_valid (write_mask m f b n ws) (b + n))"
    by (simp add: write_mask_def)
  from Suc.prems have inb: "(b + n) div 32 < length (write_mask m f b n ws)"
    by (simp add: length_write_mask)
  from Suc.prems have "b + n \<le> 32 * length ws" by simp
  note ih = Suc.IH [OF this]
  show ?case
  proof (cases "j = b + n")
    case True
    then show ?thesis
      by (simp add: step is_valid_set_valid [OF inb] is_valid_clear_valid [OF inb])
  next
    case False
    then show ?thesis
      by (auto simp: step is_valid_set_valid [OF inb] is_valid_clear_valid [OF inb] ih)
  qed
qed

lemma count_unset_bits_le: "count_unset_bits ws n \<le> n"
  by (simp add: count_unset_bits_card) (metis (no_types, lifting) card_Collect_less_nat
      card_mono finite_Collect_less_nat mem_Collect_eq subsetI)

lemma writable_live:
  assumes "writable m c" "0 < sint (size c)"
  shows "data c \<noteq> 0" "data c \<le> length m" "valid c \<noteq> 0" "valid c \<le> length m"
    "data c \<noteq> valid c"
    "deref m (data c) = Some (Data (data_at m (data c)))"
    "deref m (valid c) = Some (Mask (mask_at m (valid c)))"
proof -
  from assms have d: "data_at m (data c) \<noteq> []" and v: "mask_at m (valid c) \<noteq> []"
    by (auto simp: writable_def)
  from data_at_nonempty [OF d] mask_at_nonempty [OF v]
  show "data c \<noteq> 0" "data c \<le> length m" "valid c \<noteq> 0" "valid c \<le> length m"
    "deref m (data c) = Some (Data (data_at m (data c)))"
    "deref m (valid c) = Some (Mask (mask_at m (valid c)))"
    by simp_all
  then show "data c \<noteq> valid c" by auto
qed

lemma detail_copy_range_error:
  "detail_copy_range m c input b e = (Some err, m', c') \<Longrightarrow> m' = m \<and> c' = c"
  by (auto simp: detail_copy_range_def Let_def split: if_splits)

lemma kernel_success:
  assumes run: "detail_copy_range m c input b e = (None, m', c')" and ne: "b \<noteq> e"
  shows "0 \<le> sint b" "sint b < sint e" "sint e \<le> sint (size c)"
    and "type_dispatcher (dtype c)" and "writable m c"
    and "readable m (make_functor (dtype c) input) (nat (sint e - sint b))"
    and "c' = c\<lparr>null_count :=
           of_nat (count_unset_bits (mask_at m' (valid c)) (nat (sint (size c))))\<rparr>"
    and "length m' = length m"
    and "data_at m' (data c) =
           write_data m (make_functor (dtype c) input) (nat (sint b)) (nat (sint e - sint b))
             (data_at m (data c))"
    and "mask_at m' (valid c) =
           write_mask m (make_functor (dtype c) input) (nat (sint b)) (nat (sint e - sint b))
             (mask_at m (valid c))"
    and "\<And>q. q \<noteq> data c \<Longrightarrow> q \<noteq> valid c \<Longrightarrow> deref m' q = deref m q"
proof -
  from run ne have chk: "0 \<le>s b" "b \<le>s e" "e \<le>s size c" "type_dispatcher (dtype c)"
      "writable m c" "readable m (make_functor (dtype c) input) (nat (sint e - sint b))"
    by (auto simp: detail_copy_range_def Let_def split: if_splits)
  from chk(1,2,3) ne show r: "0 \<le> sint b" "sint b < sint e" "sint e \<le> sint (size c)"
    by (auto simp: word_sle_eq sint_inject32 order_less_le)
  from chk show "type_dispatcher (dtype c)" "writable m c"
    "readable m (make_functor (dtype c) input) (nat (sint e - sint b))"
    by simp_all
  from r have pos: "0 < sint (size c)" by simp
  note lv = writable_live [OF chk(5) pos]
  define f where "f = make_functor (dtype c) input"
  define new_data where "new_data = write_data m f (nat (sint b)) (nat (sint e - sint b))
      (data_at m (data c))"
  define new_mask where "new_mask = write_mask m f (nat (sint b)) (nat (sint e - sint b))
      (mask_at m (valid c))"
  from run ne chk have eq: "(None, m', c') =
      (None, store (store m (data c) (Data new_data)) (valid c) (Mask new_mask),
       c\<lparr>null_count := of_nat (count_unset_bits new_mask (nat (sint (size c))))\<rparr>)"
    by (simp add: detail_copy_range_def Let_def f_def new_data_def new_mask_def)
  then have m': "m' = store (store m (data c) (Data new_data)) (valid c) (Mask new_mask)"
    and c': "c' = c\<lparr>null_count := of_nat (count_unset_bits new_mask (nat (sint (size c))))\<rparr>"
    by simp_all
  have mk: "mask_at m' (valid c) = new_mask"
    using lv by (simp add: m' mask_at_def deref_store_same length_store)
  have dt: "data_at m' (data c) = new_data"
    using lv by (simp add: m' data_at_def deref_store_same deref_store_other length_store)
  show "c' = c\<lparr>null_count :=
           of_nat (count_unset_bits (mask_at m' (valid c)) (nat (sint (size c))))\<rparr>"
    by (simp add: c' mk)
  show "length m' = length m" by (simp add: m' length_store)
  show "data_at m' (data c) =
           write_data m (make_functor (dtype c) input) (nat (sint b)) (nat (sint e - sint b))
             (data_at m (data c))"
    by (simp add: dt new_data_def f_def)
  show "mask_at m' (valid c) =
           write_mask m (make_functor (dtype c) input) (nat (sint b)) (nat (sint e - sint b))
             (mask_at m (valid c))"
    by (simp add: mk new_mask_def f_def)
  show "\<And>q. q \<noteq> data c \<Longrightarrow> q \<noteq> valid c \<Longrightarrow> deref m' q = deref m q"
    by (simp add: m' deref_store_other)
qed


lemma kernel_writes:
  assumes run: "detail_copy_range m c input b e = (None, m', c')" and ne: "b \<noteq> e"
  shows "data c' = data c \<and> valid c' = valid c \<and> size c' = size c \<and> dtype c' = dtype c
         \<and> category c' = category c"
    and "\<And>i. 0 \<le> i \<Longrightarrow> i < sint e - sint b \<Longrightarrow>
           element m' c' (sint b + i) =
             functor_data m (make_functor (dtype c) input) (of_nat (nat i))
           \<and> valid_bit m' c' (sint b + i) =
             functor_valid m (make_functor (dtype c) input) (of_nat (nat i))"
    and "\<And>j. 0 \<le> j \<Longrightarrow> j < sint (size c) \<Longrightarrow> j < sint b \<or> sint e \<le> j \<Longrightarrow>
           element m' c' j = element m c j \<and> valid_bit m' c' j = valid_bit m c j"
    and "null_count_ok m' c'"
proof -
  note ks = kernel_success [OF run ne]
  let ?f = "make_functor (dtype c) input"
  from ks(5) have len: "nat (sint (size c)) \<le> length (data_at m (data c))"
      "nat (sint (size c)) \<le> 32 * length (mask_at m (valid c))"
    by (simp_all add: writable_def)
  note c' = ks(7) and d = ks(9) and w = ks(10)
  show "data c' = data c \<and> valid c' = valid c \<and> size c' = size c \<and> dtype c' = dtype c
         \<and> category c' = category c"
    by (simp add: c')
  from ks(1,2,3) len
  have bn: "nat (sint b) + nat (sint e - sint b) \<le> 32 * length (mask_at m (valid c))"
    by linarith
  show "element m' c' (sint b + i) = functor_data m ?f (of_nat (nat i))
           \<and> valid_bit m' c' (sint b + i) = functor_valid m ?f (of_nat (nat i))"
    if "0 \<le> i" "i < sint e - sint b" for i
  proof -
    from that ks(1,2,3) len have j: "nat (sint b + i) < length (data_at m (data c))"
      by linarith
    from that ks(1) have in_rng: "nat (sint b) \<le> nat (sint b + i)
        \<and> nat (sint b + i) < nat (sint b) + nat (sint e - sint b)"
      by linarith
    from that ks(1) have idx: "nat (sint b + i) - nat (sint b) = nat i" by linarith
    have "write_data m ?f (nat (sint b)) (nat (sint e - sint b)) (data_at m (data c))
        ! nat (sint b + i) = functor_data m ?f (of_nat (nat i))"
      by (simp only: write_data_nth [OF j] in_rng if_True idx simp_thms)
    moreover
    have "is_valid (write_mask m ?f (nat (sint b)) (nat (sint e - sint b))
        (mask_at m (valid c))) (nat (sint b + i)) = functor_valid m ?f (of_nat (nat i))"
      by (simp only: write_mask_valid [OF bn] in_rng if_True idx simp_thms)
    ultimately show ?thesis
      by (simp add: element_def valid_bit_def c' d w)
  qed
  show "element m' c' j = element m c j \<and> valid_bit m' c' j = valid_bit m c j"
    if "0 \<le> j" "j < sint (size c)" "j < sint b \<or> sint e \<le> j" for j
  proof -
    from that len have jl: "nat j < length (data_at m (data c))" by linarith
    from that ks(1,2) have out_rng:
      "\<not> (nat (sint b) \<le> nat j \<and> nat j < nat (sint b) + nat (sint e - sint b))"
      by linarith
    have "write_data m ?f (nat (sint b)) (nat (sint e - sint b)) (data_at m (data c)) ! nat j
        = data_at m (data c) ! nat j"
      by (simp only: write_data_nth [OF jl] out_rng if_False)
    moreover
    have "is_valid (write_mask m ?f (nat (sint b)) (nat (sint e - sint b))
        (mask_at m (valid c))) (nat j) = is_valid (mask_at m (valid c)) (nat j)"
      by (simp only: write_mask_valid [OF bn] out_rng if_False)
    ultimately show ?thesis
      by (simp add: element_def valid_bit_def c' d w)
  qed
  have "count_unset_bits (mask_at m' (valid c)) (nat (sint (size c))) \<le> nat (sint (size c))"
    by (rule count_unset_bits_le)
  also have "\<dots> < 2147483648" using sint_bounds32(2) [of "size c"] by linarith
  finally have "sint (of_nat (count_unset_bits (mask_at m' (valid c)) (nat (sint (size c))))
      :: 32 word) = int (count_unset_bits (mask_at m' (valid c)) (nat (sint (size c))))"
    by (rule sint_of_nat32)
  then show "null_count_ok m' c'"
    by (simp add: null_count_ok_def unset_bits_def c' count_unset_bits_card)
qed


section \<open>Facts about the category path\<close>

lemma copy_eq:
  "copy m c =
     (c\<lparr>data := Suc (length m), valid := Suc (Suc (length m)),
        category := Suc (Suc (Suc (length m)))\<rparr>,
      m @ [Some (Data (data_at m (data c))), Some (Mask (mask_at m (valid c))),
           Some (Dict (dict_at m (category c)))])"
  by (simp add: copy_def device_alloc_def)

lemma length_put_contents: "length (put_contents m c x) = length m"
  by (cases x) (simp add: put_contents_def length_store)

lemma deref_put_contents_other:
  "q \<noteq> data c \<Longrightarrow> q \<noteq> valid c \<Longrightarrow> q \<noteq> category c \<Longrightarrow>
   deref (put_contents m c x) q = deref m q"
  by (cases x) (simp add: put_contents_def deref_store_other)

lemma deref_gdf_column_free_other:
  "q \<noteq> data c \<Longrightarrow> q \<noteq> valid c \<Longrightarrow> q \<noteq> category c \<Longrightarrow>
   deref (gdf_column_free m c) q = deref m q"
  by (simp add: gdf_column_free_def deref_free_other)

lemma reconciliation_shape:
  assumes "reconciliation reconcile m out inp = (st, m3, temp_out, temp_in)"
  shows "temp_out = out\<lparr>data := length m + 1, valid := length m + 2, category := length m + 3\<rparr>"
    and "temp_in = inp\<lparr>data := length m + 4, valid := length m + 5, category := length m + 6\<rparr>"
    and "length m3 = length m + 6"
    and "\<And>q. q \<le> length m \<Longrightarrow> deref m3 q = deref m q"
  using assms
  by (auto simp: reconciliation_def copy_eq sync_column_categories_def length_put_contents
      deref_put_contents_other deref_append_old split: prod.splits)

lemma copy_range_category_path:
  assumes "out_begin \<noteq> out_end" "validate inp" "validate out" "dtype out = dtype inp"
    "0 \<le>s in_begin" "in_begin + (out_end - out_begin) \<le>s size inp"
    "dtype out = GDF_STRING_CATEGORY"
    "reconciliation reconcile m out inp = (st, m3, temp_out, temp_in)"
  shows "copy_range kern reconcile m out inp out_begin out_end in_begin =
     (if st \<noteq> GDF_SUCCESS then (Some ReconciliationError, m3, out)
      else (case kern m3 temp_out (column_range_factory temp_in in_begin) out_begin out_end of
              (Some e, m4, t) \<Rightarrow> (Some e, m4, out)
            | (None, m4, t) \<Rightarrow>
                (None, gdf_column_free (gdf_column_free m4 (swap_with t out)) temp_in,
                 swap_with out t)))"
  using assms
  by (auto simp: copy_range_def reconciliation_def Let_def split: prod.splits)

lemma copy_range_plain_path:
  assumes "out_begin \<noteq> out_end" "validate inp" "validate out" "dtype out = dtype inp"
    "0 \<le>s in_begin" "in_begin + (out_end - out_begin) \<le>s size inp"
    "dtype out \<noteq> GDF_STRING_CATEGORY"
  shows "copy_range kern reconcile m out inp out_begin out_end in_begin =
     kern m out (column_range_factory inp in_begin) out_begin out_end"
  using assms by (simp add: copy_range_def)

lemma copy_range_checks:
  assumes "copy_range kern reconcile m out inp out_begin out_end in_begin = (None, m', out')"
    and "out_begin \<noteq> out_end"
  shows "validate inp" "validate out" "dtype out = dtype inp"
    "0 \<le>s in_begin" "in_begin + (out_end - out_begin) \<le>s size inp"
  using assms by (auto simp: copy_range_def Let_def split: if_splits)

lemma copy_range_error_frame:
  assumes "copy_range detail_copy_range reconcile m out inp out_begin out_end in_begin =
      (Some err, m', out')"
  shows "out' = out \<and> (\<forall>q. q \<le> length m \<longrightarrow> deref m' q = deref m q)"
proof (cases "out_begin \<noteq> out_end \<and> validate inp \<and> validate out \<and> dtype out = dtype inp
    \<and> 0 \<le>s in_begin \<and> in_begin + (out_end - out_begin) \<le>s size inp")
  case False
  with assms show ?thesis
    by (auto simp: copy_range_def Let_def split: if_splits)
next
  case pre: True
  show ?thesis
  proof (cases "dtype out = GDF_STRING_CATEGORY")
    case False
    with pre assms have
      "detail_copy_range m out (column_range_factory inp in_begin) out_begin out_end =
        (Some err, m', out')"
      by (simp add: copy_range_plain_path)
    from detail_copy_range_error [OF this] show ?thesis by simp
  next
    case True
    obtain st m3 temp_out temp_in where
      r: "reconciliation reconcile m out inp = (st, m3, temp_out, temp_in)"
      by (cases "reconciliation reconcile m out inp") auto
    note cp = copy_range_category_path [where kern = detail_copy_range, OF _ _ _ _ _ _ True r]
    show ?thesis
    proof (cases "st = GDF_SUCCESS")
      case False
      with pre assms cp have "m' = m3" "out' = out" by simp_all
      with reconciliation_shape(4) [OF r] show ?thesis by simp
    next
      case ok: True
      obtain e m4 t where kr:
        "detail_copy_range m3 temp_out (column_range_factory temp_in in_begin) out_begin out_end
          = (e, m4, t)"
        by (cases "detail_copy_range m3 temp_out (column_range_factory temp_in in_begin)
            out_begin out_end") auto
      with pre assms cp ok obtain e' where e: "e = Some e'" and "m' = m4" "out' = out"
        by (cases e) simp_all
      moreover from detail_copy_range_error [OF kr [unfolded e]] have "m4 = m3" by simp
      ultimately show ?thesis
        using reconciliation_shape(4) [OF r] by simp
    qed
  qed
qed

lemma category_success:
  assumes run: "copy_range detail_copy_range reconcile m out inp out_begin out_end in_begin =
      (None, m', out')"
    and ne: "out_begin \<noteq> out_end" and cat: "dtype out = GDF_STRING_CATEGORY"
    and al: "allocated m out"
    and r: "reconciliation reconcile m out inp = (st, m3, temp_out, temp_in)"
  obtains m4 t where "st = GDF_SUCCESS"
    and "detail_copy_range m3 temp_out (column_range_factory temp_in in_begin)
        out_begin out_end = (None, m4, t)"
    and "out' = swap_with out t"
    and "\<And>q. q = length m + 1 \<or> q = length m + 2 \<or> q = length m + 3 \<Longrightarrow>
           deref m' q = deref m4 q"
proof -
  note pre = copy_range_checks [OF run ne]
  note sh = reconciliation_shape [OF r]
  obtain e4 m4 t where kr:
    "detail_copy_range m3 temp_out (column_range_factory temp_in in_begin) out_begin out_end
      = (e4, m4, t)"
    by (cases "detail_copy_range m3 temp_out (column_range_factory temp_in in_begin)
        out_begin out_end") auto
  from run copy_range_category_path [where kern = detail_copy_range, OF ne pre cat r] kr
  have st: "st = GDF_SUCCESS" and e4: "e4 = None"
    and res: "(None, m', out') =
      (None, gdf_column_free (gdf_column_free m4 (swap_with t out)) temp_in, swap_with out t)"
    by (auto split: if_splits option.splits)
  from res have m': "m' = gdf_column_free (gdf_column_free m4 (swap_with t out)) temp_in"
    and out': "out' = swap_with out t" by simp_all
  have fr: "deref m' q = deref m4 q"
    if "q = length m + 1 \<or> q = length m + 2 \<or> q = length m + 3" for q
    using that al sh(2)
    by (auto simp: m' deref_gdf_column_free_other swap_with_def allocated_def)
  from st kr [unfolded e4] out' fr show ?thesis by (rule that)
qed

section \<open>What a successful call writes\<close>








lemma fill_null_count:
  assumes run: "fill detail_copy_range m c v b e = (None, m', c')" and ne: "b \<noteq> e"
  shows "null_count_ok m' c'"
proof -
  from run ne have k: "detail_copy_range m c (scalar_factory v) b e = (None, m', c')"
    by (auto simp: fill_def split: if_splits)
  from kernel_writes(4) [OF k ne] show ?thesis .
qed

lemma copy_range_null_count:
  assumes run: "copy_range detail_copy_range reconcile m out inp out_begin out_end in_begin =
      (None, m', out')"
    and ne: "out_begin \<noteq> out_end"
    and al: "dtype out = GDF_STRING_CATEGORY \<longrightarrow> allocated m out"
  shows "null_count_ok m' out'"
proof (cases "dtype out = GDF_STRING_CATEGORY")
  case False
  note pre = copy_range_checks [OF run ne]
  from run copy_range_plain_path [OF ne pre False] have
    k: "detail_copy_range m out (column_range_factory inp in_begin) out_begin out_end =
      (None, m', out')"
    by simp
  from kernel_writes(4) [OF k ne] show ?thesis .
next
  case cat: True
  obtain st m3 temp_out temp_in where
    r: "reconciliation reconcile m out inp = (st, m3, temp_out, temp_in)"
    by (cases "reconciliation reconcile m out inp") auto
  note sh = reconciliation_shape [OF r]
  from al cat have al': "allocated m out" by simp
  from category_success [OF run ne cat al' r] obtain m4 t where
    k: "detail_copy_range m3 temp_out (column_range_factory temp_in in_begin)
        out_begin out_end = (None, m4, t)"
    and out': "out' = swap_with out t"
    and fr: "\<And>q. q = length m + 1 \<or> q = length m + 2 \<or> q = length m + 3 \<Longrightarrow>
           deref m' q = deref m4 q"
    by blast
  note kw = kernel_writes [OF k ne]
  from kw(1) sh(1) have t: "valid t = length m + 2" "size t = size out" by simp_all
  have "mask_at m' (valid t) = mask_at m4 (valid t)"
    by (simp add: mask_at_def t fr)
  with kw(4) show ?thesis
    by (simp add: null_count_ok_def unset_bits_def out' swap_with_def t)
qed

section \<open>Running the concrete columns\<close>

lemmas fixture_defs = scenario_memory_def scenario_dest_def scenario_source_def
  fill_memory_def fill_column_def fill_scalar_def category_memory_def category_dest_def
  category_source_def

lemmas run_defs = copy_range_def fill_def detail_copy_range_def validate_def
  type_dispatcher_def write_data_def write_mask_def count_unset_bits_def
  is_valid_def set_valid_def clear_valid_def data_at_def mask_at_def dict_at_def
  deref_def store_def Let_def upt_conv_Cons set_bit_eq_or unset_bit_eq_and_not
  word_sle_eq writable_def type_pun_def is_floating_def

lemmas path_defs = copy_def device_alloc_def sync_column_categories_def put_contents_def
  contents_of_def reconcile_union_def reconcile_fails_def remap_def reconciliation_def


lemma fill_run:
  "fill detail_copy_range fill_memory fill_column fill_scalar 1 3 =
     (None, [Some (Data [1, 7, 7, 4]), Some (Mask [9])], fill_column\<lparr>null_count := 2\<rparr>)"
  by (simp add: fixture_defs run_defs)


lemma category_reconciled:
  "reconciliation reconcile_union category_memory category_dest category_source =
     (GDF_SUCCESS,
      [Some (Data [0, 0]), Some (Mask [3]), Some (Dict [''a'']),
       Some (Data [0, 0]), Some (Mask [3]), Some (Dict [''b'']),
       Some (Data [0, 0]), Some (Mask [3]), Some (Dict [''a'', ''b'']),
       Some (Data [1, 1]), Some (Mask [3]), Some (Dict [''a'', ''b''])],
      category_dest\<lparr>data := 7, valid := 8, category := 9\<rparr>,
      category_source\<lparr>data := 10, valid := 11, category := 12\<rparr>)"
  by (simp add: fixture_defs run_defs path_defs)

lemma category_kernel_run:
  "detail_copy_range
     [Some (Data [0, 0]), Some (Mask [3]), Some (Dict [''a'']),
      Some (Data [0, 0]), Some (Mask [3]), Some (Dict [''b'']),
      Some (Data [0, 0]), Some (Mask [3]), Some (Dict [''a'', ''b'']),
      Some (Data [1, 1]), Some (Mask [3]), Some (Dict [''a'', ''b''])]
     (category_dest\<lparr>data := 7, valid := 8, category := 9\<rparr>)
     (column_range_factory (category_source\<lparr>data := 10, valid := 11, category := 12\<rparr>) 0)
     0 1 =
     (None,
      [Some (Data [0, 0]), Some (Mask [3]), Some (Dict [''a'']),
       Some (Data [0, 0]), Some (Mask [3]), Some (Dict [''b'']),
       Some (Data [1, 0]), Some (Mask [3]), Some (Dict [''a'', ''b'']),
       Some (Data [1, 1]), Some (Mask [3]), Some (Dict [''a'', ''b''])],
      category_dest\<lparr>data := 7, valid := 8, category := 9\<rparr>)"
  by (simp add: fixture_defs run_defs)

lemma category_pre:
  "(0::32 word) \<noteq> 1" "validate category_source" "validate category_dest"
  "dtype category_dest = dtype category_source" "(0::32 word) \<le>s 0"
  "0 + (1 - 0) \<le>s size category_source" "dtype category_dest = GDF_STRING_CATEGORY"
  by (simp_all add: fixture_defs validate_def word_sle_eq)

lemma category_run:
  "copy_range detail_copy_range reconcile_union category_memory category_dest
     category_source 0 1 0 =
     (None,
      [None, None, None, Some (Data [0, 0]), Some (Mask [3]), Some (Dict [''b'']),
       Some (Data [1, 0]), Some (Mask [3]), Some (Dict [''a'', ''b'']), None, None, None],
      \<lparr>data = 7, valid = 8, size = 2, dtype = GDF_STRING_CATEGORY, null_count = 0,
       category = 9\<rparr>)"
  by (simp only: copy_range_category_path [OF category_pre category_reconciled]
      category_kernel_run)
    (simp add: fixture_defs gdf_column_free_def device_free_def swap_with_def)

lemma category_failure_reconciled:
  "reconciliation reconcile_fails category_memory category_dest category_source =
     (GDF_CUDA_ERROR,
      [Some (Data [0, 0]), Some (Mask [3]), Some (Dict [''a'']),
       Some (Data [0, 0]), Some (Mask [3]), Some (Dict [''b'']),
       Some (Data [0, 0]), Some (Mask [3]), Some (Dict [''a'']),
       Some (Data [0, 0]), Some (Mask [3]), Some (Dict [''b''])],
      category_dest\<lparr>data := 7, valid := 8, category := 9\<rparr>,
      category_source\<lparr>data := 10, valid := 11, category := 12\<rparr>)"
  by (simp add: fixture_defs run_defs path_defs)

lemma category_failure_run:
  "copy_range kern reconcile_fails category_memory category_dest category_source 0 1 0 =
     (Some ReconciliationError,
      [Some (Data [0, 0]), Some (Mask [3]), Some (Dict [''a'']),
       Some (Data [0, 0]), Some (Mask [3]), Some (Dict [''b'']),
       Some (Data [0, 0]), Some (Mask [3]), Some (Dict [''a'']),
       Some (Data [0, 0]), Some (Mask [3]), Some (Dict [''b''])],
      category_dest)"
  by (simp only: copy_range_category_path [OF category_pre category_failure_reconciled])
    simp

section \<open>What copy_range and fill write\<close>







section \<open>The null count\<close>

text \<open>
  C3, as amended. After every successful \<^verbatim>\<open>copy_range\<close> or \<^verbatim>\<open>fill\<close> on a range
  that is not empty, the destination's \<open>null_count\<close> equals the number of unset bits
  among the first \<open>size\<close> bits of its bitmap, recomputed from the whole bitmap whatever
  it was before (on the category path, for a destination whose pointers are null or
  allocated). A call on an empty range returns the column as it was passed, with the
  \<open>null_count\<close> it came with.
\<close>

theorem null_count_recomputed:
  "(copy_range detail_copy_range reconcile m out inp out_begin out_end in_begin =
      (None, m', out')
    \<and> out_begin \<noteq> out_end
    \<and> (dtype out = GDF_STRING_CATEGORY \<longrightarrow> allocated m out)
    \<longrightarrow> null_count_ok m' out')
   \<and> (fill detail_copy_range mf c v b e = (None, mf', c') \<and> b \<noteq> e
    \<longrightarrow> null_count_ok mf' c')
   \<and> copy_range detail_copy_range reconcile_z mz outz inpz bz bz inz = (None, mz, outz)
   \<and> fill detail_copy_range mz cz vz bz bz = (None, mz, cz)"
proof -
  have a: "null_count_ok m' out'"
    if "copy_range detail_copy_range reconcile m out inp out_begin out_end in_begin =
      (None, m', out')" "out_begin \<noteq> out_end"
      "dtype out = GDF_STRING_CATEGORY \<longrightarrow> allocated m out"
    using copy_range_null_count [OF that] .
  have f: "null_count_ok mf' c'"
    if "fill detail_copy_range mf c v b e = (None, mf', c')" "b \<noteq> e"
    using fill_null_count [OF that] .
  have z: "copy_range detail_copy_range reconcile_z mz outz inpz bz bz inz = (None, mz, outz)"
    "fill detail_copy_range mz cz vz bz bz = (None, mz, cz)"
    by (simp_all add: copy_range_def fill_def)
  from a f z show ?thesis by blast
qed

theorem null_count_recomputed_witness:
  "copy_range detail_copy_range reconcile_union scenario_memory
     (scenario_dest\<lparr>null_count := 77\<rparr>) scenario_source 1 4 2 =
     (None,
      [Some (Data [0, 30, 40, 50, 0]), Some (Mask [31]),
       Some (Data [10, 20, 30, 40, 50]), Some (Mask [31])],
      scenario_dest)
   \<and> (1 :: 32 word) \<noteq> 4
   \<and> dtype (scenario_dest\<lparr>null_count := 77\<rparr>) \<noteq> GDF_STRING_CATEGORY
   \<and> null_count_ok
         [Some (Data [0, 30, 40, 50, 0]), Some (Mask [31]),
          Some (Data [10, 20, 30, 40, 50]), Some (Mask [31])]
         scenario_dest
   \<and> fill detail_copy_range fill_memory fill_column fill_scalar 1 3 =
       (None, [Some (Data [1, 7, 7, 4]), Some (Mask [9])], fill_column\<lparr>null_count := 2\<rparr>)
   \<and> (1 :: 32 word) \<noteq> 3
   \<and> null_count_ok [Some (Data [1, 7, 7, 4]), Some (Mask [9])]
         (fill_column\<lparr>null_count := 2\<rparr>)
   \<and> copy_range detail_copy_range reconcile_union category_memory category_dest
         category_source 0 1 0 =
       (None,
        [None, None, None, Some (Data [0, 0]), Some (Mask [3]), Some (Dict [''b'']),
         Some (Data [1, 0]), Some (Mask [3]), Some (Dict [''a'', ''b'']), None, None, None],
        \<lparr>data = 7, valid = 8, size = 2, dtype = GDF_STRING_CATEGORY, null_count = 0,
         category = 9\<rparr>)
   \<and> allocated category_memory category_dest
   \<and> null_count_ok
        [None, None, None, Some (Data [0, 0]), Some (Mask [3]), Some (Dict [''b'']),
         Some (Data [1, 0]), Some (Mask [3]), Some (Dict [''a'', ''b'']), None, None, None]
        \<lparr>data = 7, valid = 8, size = 2, dtype = GDF_STRING_CATEGORY, null_count = 0,
         category = 9\<rparr>"
proof -
  let ?M = "[Some (Data [0, 30, 40, 50, 0]), Some (Mask [31]),
       Some (Data [10, 20, 30, 40, 50]), Some (Mask [31])]"
  let ?MC = "[None, None, None, Some (Data [0, 0]), Some (Mask [3]), Some (Dict [''b'']),
         Some (Data [1, 0]), Some (Mask [3]), Some (Dict [''a'', ''b'']), None, None, None]"
  let ?OC = "\<lparr>data = 7, valid = 8, size = 2, dtype = GDF_STRING_CATEGORY, null_count = 0,
         category = 9\<rparr>"
  have r: "copy_range detail_copy_range reconcile_union scenario_memory
     (scenario_dest\<lparr>null_count := 77\<rparr>) scenario_source 1 4 2 = (None, ?M, scenario_dest)"
    by (simp add: fixture_defs run_defs)
  have plain: "dtype (scenario_dest\<lparr>null_count := 77\<rparr>) \<noteq> GDF_STRING_CATEGORY"
    by (simp add: scenario_dest_def)
  have ne: "(1 :: 32 word) \<noteq> 4" "(1 :: 32 word) \<noteq> 3" "(0 :: 32 word) \<noteq> 1" by simp_all
  from null_count_recomputed [where reconcile = reconcile_union and m = scenario_memory
      and out = "scenario_dest\<lparr>null_count := 77\<rparr>" and inp = scenario_source
      and out_begin = 1 and out_end = 4 and in_begin = 2 and m' = ?M and out' = scenario_dest,
      THEN conjunct1, rule_format] r ne(1) plain
  have a: "null_count_ok ?M scenario_dest" by blast
  from null_count_recomputed [where mf = fill_memory and c = fill_column and v = fill_scalar
      and b = 1 and e = 3 and mf' = "[Some (Data [1, 7, 7, 4]), Some (Mask [9])]"
      and c' = "fill_column\<lparr>null_count := 2\<rparr>",
      THEN conjunct2, THEN conjunct1, rule_format] fill_run ne(2)
  have b: "null_count_ok [Some (Data [1, 7, 7, 4]), Some (Mask [9])]
      (fill_column\<lparr>null_count := 2\<rparr>)"
    by blast
  have al: "allocated category_memory category_dest"
    by (simp add: allocated_def fixture_defs)
  from null_count_recomputed [where reconcile = reconcile_union and m = category_memory
      and out = category_dest and inp = category_source
      and out_begin = 0 and out_end = 1 and in_begin = 0 and m' = ?MC and out' = ?OC,
      THEN conjunct1, rule_format] category_run ne(3) al
  have c: "null_count_ok ?MC ?OC" by blast
  from r ne plain a fill_run b category_run al c show ?thesis by blast
qed

text \<open>
  The claim as stated fails on an empty range: the call succeeds as a no-op and the
  column keeps the \<open>null_count\<close> 77 it came with, over a bitmap with no unset bit.
\<close>

theorem stale_null_count_counterexample:
  "fill detail_copy_range fill_memory (fill_column\<lparr>null_count := 77\<rparr>) fill_scalar 3 3 =
     (None, fill_memory, fill_column\<lparr>null_count := 77\<rparr>)
   \<and> sint (null_count (fill_column\<lparr>null_count := 77\<rparr>)) = 77
   \<and> card (unset_bits fill_memory (fill_column\<lparr>null_count := 77\<rparr>)) = 0
   \<and> \<not> null_count_ok fill_memory (fill_column\<lparr>null_count := 77\<rparr>)"
proof -
  have "card (unset_bits fill_memory (fill_column\<lparr>null_count := 77\<rparr>)) =
      count_unset_bits (mask_at fill_memory (valid fill_column)) (nat (sint (size fill_column)))"
    by (simp add: unset_bits_def count_unset_bits_card)
  also have "\<dots> = 0"
    by (simp add: fixture_defs count_unset_bits_def mask_at_def deref_def is_valid_def
        upt_conv_Cons)
  finally have c: "card (unset_bits fill_memory (fill_column\<lparr>null_count := 77\<rparr>)) = 0" .
  then show ?thesis
    by (simp add: fill_def null_count_ok_def)
qed

section \<open>The temporaries of the category path\<close>

text \<open>
  C4. The claim: when the dictionary synchronization does not report success, both
  temporary columns are released before \<open>ReconciliationError\<close> reaches the caller.
  The code throws at the check of the synchronization status, before the two calls of
  \<^verbatim>\<open>gdf_column_free\<close> that end the category path, so the six blocks of the two
  temporaries stay allocated. Here the call on two category columns with a failing
  synchronization: the memory holds six live blocks before the call and twelve after it.
\<close>

theorem sync_failure_leaks_temporaries:
  "copy_range detail_copy_range reconcile_fails category_memory category_dest
     category_source 0 1 0 =
     (Some ReconciliationError,
      [Some (Data [0, 0]), Some (Mask [3]), Some (Dict [''a'']),
       Some (Data [0, 0]), Some (Mask [3]), Some (Dict [''b'']),
       Some (Data [0, 0]), Some (Mask [3]), Some (Dict [''a'']),
       Some (Data [0, 0]), Some (Mask [3]), Some (Dict [''b''])],
      category_dest)
   \<and> live category_memory = [1, 2, 3, 4, 5, 6]
   \<and> live
        [Some (Data [0, 0]), Some (Mask [3]), Some (Dict [''a'']),
         Some (Data [0, 0]), Some (Mask [3]), Some (Dict [''b'']),
         Some (Data [0, 0]), Some (Mask [3]), Some (Dict [''a'']),
         Some (Data [0, 0]), Some (Mask [3]), Some (Dict [''b''])]
      = [1, 2, 3, 4, 5, 6, 7, 8, 9, 10, 11, 12]
   \<and> live
        (fst (snd (copy_range detail_copy_range reconcile_union category_memory category_dest
           category_source 0 1 0)))
      = [4, 5, 6, 7, 8, 9]"
  by (simp add: category_failure_run category_run)
    (simp add: live_def deref_def category_memory_def upt_conv_Cons)

section \<open>Zero-length ranges\<close>

text \<open>
  C7. With a zero-length range (\<open>out_end = out_begin\<close> for \<^verbatim>\<open>copy_range\<close>,
  \<open>end = begin\<close> for \<^verbatim>\<open>fill\<close>) the call returns normally and leaves the device
  memory and the destination column exactly as they were, whatever the columns, the
  scalar and the kernel are: nothing is validated and no error is raised.
\<close>

theorem zero_length_range_is_noop:
  "copy_range kern reconcile m out inp b b in_begin = (None, m, out)
   \<and> fill kern m c v b b = (None, m, c)"
  by (simp add: copy_range_def fill_def)

theorem zero_length_range_is_noop_witness:
  "\<not> validate (scenario_dest\<lparr>data := 0\<rparr>)
   \<and> copy_range detail_copy_range reconcile_union scenario_memory
         (scenario_dest\<lparr>data := 0\<rparr>) scenario_source 2 2 9 =
       (None, scenario_memory, scenario_dest\<lparr>data := 0\<rparr>)
   \<and> fill detail_copy_range scenario_memory (scenario_dest\<lparr>data := 0\<rparr>) fill_scalar 7 7 =
       (None, scenario_memory, scenario_dest\<lparr>data := 0\<rparr>)"
  using zero_length_range_is_noop [of detail_copy_range reconcile_union scenario_memory
      "scenario_dest\<lparr>data := 0\<rparr>" scenario_source 2 9 "scenario_dest\<lparr>data := 0\<rparr>"
      fill_scalar]
    zero_length_range_is_noop [of detail_copy_range reconcile_union scenario_memory
      "scenario_dest\<lparr>data := 0\<rparr>" scenario_source 7 9 "scenario_dest\<lparr>data := 0\<rparr>"
      fill_scalar]
  by (simp add: validate_def scenario_dest_def)

section \<open>Rejected calls\<close>

text \<open>
  C5. When both columns are category-encoded and the dictionary synchronization does not
  report success, \<^verbatim>\<open>copy_range\<close> fails with \<open>ReconciliationError\<close> and the real
  destination is unmodified: the column (data pointer, bitmap pointer, \<open>null_count\<close>,
  dictionary handle) is the one passed in, and every block of memory that existed before
  the call, so the destination's data buffer, bitmap and dictionary, holds what it held.
\<close>

theorem sync_failure_leaves_destination:
  assumes "out_begin \<noteq> out_end" "validate inp" "validate out"
    "dtype out = GDF_STRING_CATEGORY" "dtype inp = GDF_STRING_CATEGORY"
    "0 \<le>s in_begin" "in_begin + (out_end - out_begin) \<le>s size inp"
    "fst (reconciliation reconcile m out inp) \<noteq> GDF_SUCCESS"
  shows "\<exists>m'. copy_range kern reconcile m out inp out_begin out_end in_begin =
            (Some ReconciliationError, m', out)
          \<and> (\<forall>q. q \<le> length m \<longrightarrow> deref m' q = deref m q)"
proof -
  obtain st m3 temp_out temp_in where
    r: "reconciliation reconcile m out inp = (st, m3, temp_out, temp_in)"
    by (cases "reconciliation reconcile m out inp") auto
  with assms have st: "st \<noteq> GDF_SUCCESS" by simp
  from assms r st
  have "copy_range kern reconcile m out inp out_begin out_end in_begin =
      (Some ReconciliationError, m3, out)"
    by (simp add: copy_range_category_path)
  with reconciliation_shape(4) [OF r] show ?thesis by simp
qed

theorem sync_failure_leaves_destination_witness:
  "validate category_source \<and> validate category_dest
   \<and> dtype category_dest = GDF_STRING_CATEGORY \<and> dtype category_source = GDF_STRING_CATEGORY
   \<and> fst (reconciliation reconcile_fails category_memory category_dest category_source)
       \<noteq> GDF_SUCCESS
   \<and> (\<exists>m'. copy_range detail_copy_range reconcile_fails category_memory category_dest
              category_source 0 1 0 = (Some ReconciliationError, m', category_dest)
           \<and> deref m' 1 = deref category_memory 1
           \<and> deref m' 2 = deref category_memory 2
           \<and> deref m' 3 = deref category_memory 3)"
proof -
  have h: "(0::32 word) \<noteq> 1" "validate category_source" "validate category_dest"
    "dtype category_dest = GDF_STRING_CATEGORY" "dtype category_source = GDF_STRING_CATEGORY"
    "(0::32 word) \<le>s 0" "0 + (1 - 0) \<le>s size category_source"
    "fst (reconciliation reconcile_fails category_memory category_dest category_source)
       \<noteq> GDF_SUCCESS"
    by (simp_all add: category_failure_reconciled)
      (simp_all add: fixture_defs validate_def word_sle_eq)
  from sync_failure_leaves_destination [OF h, of detail_copy_range]
  obtain m' where "copy_range detail_copy_range reconcile_fails category_memory category_dest
      category_source 0 1 0 = (Some ReconciliationError, m', category_dest)"
    and "\<forall>q. q \<le> length category_memory \<longrightarrow> deref m' q = deref category_memory q"
    by blast
  moreover have "length category_memory = 6" by (simp add: category_memory_def)
  ultimately show ?thesis using h by auto
qed

text \<open>
  C6. A \<^verbatim>\<open>copy_range\<close> or \<^verbatim>\<open>fill\<close> call that fails with \<open>ValidationError\<close>,
  \<open>TypeMismatchError\<close> or \<open>RangeError\<close> has changed nothing of its operands: the
  destination column is the one passed in and every block of memory that existed before
  the call holds what it held (for \<^verbatim>\<open>fill\<close> the memory is the same altogether).
\<close>

theorem rejected_call_leaves_operands:
  "(copy_range detail_copy_range reconcile m out inp out_begin out_end in_begin =
      (Some err, m', out')
    \<and> err \<in> {ValidationError, TypeMismatchError, RangeError} \<longrightarrow>
      out' = out \<and> (\<forall>q. q \<le> length m \<longrightarrow> deref m' q = deref m q))
   \<and> (fill detail_copy_range m2 c v b e = (Some err2, m2', c')
       \<and> err2 \<in> {ValidationError, TypeMismatchError, RangeError} \<longrightarrow>
       m2' = m2 \<and> c' = c)"
proof -
  have fill_part: "m2' = m2 \<and> c' = c"
    if "fill detail_copy_range m2 c v b e = (Some err2, m2', c')"
    using that by (auto simp: fill_def split: if_splits dest: detail_copy_range_error)
  show ?thesis
    using copy_range_error_frame [of reconcile m out inp out_begin out_end in_begin err m' out']
      fill_part
    by blast
qed

theorem rejected_call_leaves_operands_witness:
  "copy_range detail_copy_range reconcile_union scenario_memory scenario_dest
     scenario_source 1 4 3 = (Some RangeError, scenario_memory, scenario_dest)
   \<and> fill detail_copy_range fill_memory fill_column
         (fill_scalar\<lparr>scalar_dtype := GDF_INT64\<rparr>) 1 3 =
       (Some TypeMismatchError, fill_memory, fill_column)"
proof -
  have c: "copy_range detail_copy_range reconcile_union scenario_memory scenario_dest
     scenario_source 1 4 3 =
       (Some RangeError, snd (copy_range detail_copy_range reconcile_union scenario_memory
          scenario_dest scenario_source 1 4 3))"
    by (simp add: copy_range_def fixture_defs validate_def word_sle_eq)
  have f: "fill detail_copy_range fill_memory fill_column
         (fill_scalar\<lparr>scalar_dtype := GDF_INT64\<rparr>) 1 3 =
       (Some TypeMismatchError, fill_memory, fill_column)"
    by (simp add: fill_def fixture_defs validate_def)
  have m: "fst (snd (copy_range detail_copy_range reconcile_union scenario_memory
          scenario_dest scenario_source 1 4 3)) = scenario_memory"
    by (simp add: copy_range_def fixture_defs validate_def word_sle_eq)
  from rejected_call_leaves_operands [of reconcile_union scenario_memory scenario_dest
      scenario_source 1 4 3 RangeError scenario_memory
      "snd (snd (copy_range detail_copy_range reconcile_union scenario_memory
          scenario_dest scenario_source 1 4 3))"
      fill_memory fill_column "fill_scalar\<lparr>scalar_dtype := GDF_INT64\<rparr>" 1 3
      TypeMismatchError fill_memory fill_column] c f m
  have "snd (snd (copy_range detail_copy_range reconcile_union scenario_memory
          scenario_dest scenario_source 1 4 3)) = scenario_dest"
    by (metis insertI1 insertI2 prod.collapse)
  with c m f show ?thesis by (metis prod.collapse)
qed

section \<open>Ranges that the public operations do not check\<close>

text \<open>
  C9. \<^verbatim>\<open>fill\<close> never raises \<open>RangeError\<close> of its own: it checks the column's
  structure and the type tags and nothing else. For every column that passes the
  validation, scalar of the same type tag and \<open>begin \<noteq> end\<close>, whatever the range is
  (out of bounds or inverted), it is passed through: the result of \<^verbatim>\<open>fill\<close> is the
  result of the kernel on that range, for every kernel. So a \<open>RangeError\<close> can leave
  \<^verbatim>\<open>fill\<close> only when the kernel path it called raised it.
\<close>

theorem fill_passes_range_to_kernel:
  "(validate c \<and> dtype c = scalar_dtype v \<and> b \<noteq> e \<longrightarrow>
      fill kern m c v b e = kern m c (scalar_factory v) b e)
   \<and> (fst (fill kern m c v b e) = Some RangeError \<longrightarrow>
        fst (kern m c (scalar_factory v) b e) = Some RangeError)
   \<and> ((\<forall>m' c' f b' e'. fst (kern2 m' c' f b' e') \<noteq> Some RangeError) \<longrightarrow>
        fst (fill kern2 m c v b e) \<noteq> Some RangeError)"
  by (auto simp: fill_def split: if_splits)

theorem fill_passes_range_to_kernel_witness:
  "validate fill_column \<and> dtype fill_column = scalar_dtype fill_scalar
   \<and> (2 :: 32 word) \<noteq> 9 \<and> (3 :: 32 word) \<noteq> 1
   \<and> fill detail_copy_range fill_memory fill_column fill_scalar 2 9 =
       detail_copy_range fill_memory fill_column (scalar_factory fill_scalar) 2 9
   \<and> fst (fill detail_copy_range fill_memory fill_column fill_scalar 2 9) = Some RangeError
   \<and> fst (detail_copy_range fill_memory fill_column (scalar_factory fill_scalar) 2 9)
       = Some RangeError
   \<and> fill idle_kernel fill_memory fill_column fill_scalar 3 1 = (None, fill_memory, fill_column)
   \<and> fst (fill idle_kernel fill_memory fill_column fill_scalar 3 1) \<noteq> Some RangeError"
proof -
  have h: "validate fill_column" "dtype fill_column = scalar_dtype fill_scalar"
    "(2 :: 32 word) \<noteq> 9" "(3 :: 32 word) \<noteq> 1"
    by (simp_all add: fixture_defs validate_def)
  have idle: "\<forall>m' c' f b' e'. fst (idle_kernel m' c' f b' e') \<noteq> Some RangeError"
    by (simp add: idle_kernel_def)
  note i1 = fill_passes_range_to_kernel [where c = fill_column and v = fill_scalar
      and b = 2 and e = 9 and kern = detail_copy_range and m = fill_memory]
  note i2 = fill_passes_range_to_kernel [where c = fill_column and v = fill_scalar
      and b = 3 and e = 1 and kern = idle_kernel and ?kern2.0 = idle_kernel and m = fill_memory]
  from i1 [THEN conjunct1] h
  have a: "fill detail_copy_range fill_memory fill_column fill_scalar 2 9 =
       detail_copy_range fill_memory fill_column (scalar_factory fill_scalar) 2 9"
    by blast
  have k: "fst (detail_copy_range fill_memory fill_column (scalar_factory fill_scalar) 2 9)
       = Some RangeError"
    by (simp add: detail_copy_range_def fixture_defs word_sle_eq)
  with a have f: "fst (fill detail_copy_range fill_memory fill_column fill_scalar 2 9)
      = Some RangeError"
    by simp
  from i2 [THEN conjunct1] h
  have "fill idle_kernel fill_memory fill_column fill_scalar 3 1 =
      idle_kernel fill_memory fill_column (scalar_factory fill_scalar) 3 1"
    by blast
  then have b: "fill idle_kernel fill_memory fill_column fill_scalar 3 1
      = (None, fill_memory, fill_column)"
    by (simp add: idle_kernel_def)
  from i2 [THEN conjunct2, THEN conjunct2] idle
  have c: "fst (fill idle_kernel fill_memory fill_column fill_scalar 3 1) \<noteq> Some RangeError"
    by blast
  from h a f k b c show ?thesis by blast
qed

text \<open>
  C10, as amended. \<^verbatim>\<open>copy_range\<close> does not check \<open>out_begin \<le> out_end\<close>. With
  \<open>out_end < out_begin\<close> the computed element count \<open>out_end - out_begin\<close> is not
  zero, so the call is no no-op. The count is a 32-bit difference: it is the negative
  number \<open>out_end - out_begin\<close> when that is at least \<open>-2\<^sup>3\<^sup>1\<close>, and it wraps
  around to the positive number \<open>out_end - out_begin + 2\<^sup>3\<^sup>2\<close> otherwise. The source
  check \<open>in_begin \<ge> 0 \<and> in_begin + count \<le> source.size\<close> is evaluated with the
  computed count; with a negative count it holds whenever \<open>0 \<le> in_begin\<close> and
  \<open>in_begin + (out_end - out_begin) \<le> source.size\<close>. Whenever it holds of an inverted
  range on valid columns of one type tag, the call goes on into the kernel path: for a
  column that is not category-encoded its result is the kernel's result on the inverted
  range, and on either path a \<open>RangeError\<close> can only come from the kernel.
\<close>

theorem copy_range_inverted_range:
  "(out_end <s out_begin \<longrightarrow> out_end - out_begin \<noteq> 0)
   \<and> (out_end <s out_begin \<and> - 2147483648 \<le> sint out_end - sint out_begin \<longrightarrow>
        sint (out_end - out_begin) = sint out_end - sint out_begin
        \<and> sint (out_end - out_begin) < 0
        \<and> (0 \<le>s in_begin
             \<and> sint in_begin + (sint out_end - sint out_begin) \<le> sint (size inp) \<longrightarrow>
            in_begin + (out_end - out_begin) \<le>s size inp))
   \<and> (out_end <s out_begin \<and> sint out_end - sint out_begin < - 2147483648 \<longrightarrow>
        sint (out_end - out_begin) = sint out_end - sint out_begin + 4294967296
        \<and> 0 < sint (out_end - out_begin))
   \<and> (out_end <s out_begin \<and> validate inp \<and> validate out \<and> dtype out = dtype inp
        \<and> 0 \<le>s in_begin \<and> in_begin + (out_end - out_begin) \<le>s size inp \<longrightarrow>
        (dtype out \<noteq> GDF_STRING_CATEGORY \<longrightarrow>
           copy_range kern reconcile m out inp out_begin out_end in_begin =
             kern m out (column_range_factory inp in_begin) out_begin out_end)
        \<and> ((\<forall>m' c f b e. fst (kern2 m' c f b e) \<noteq> Some RangeError) \<longrightarrow>
             fst (copy_range kern2 reconcile m out inp out_begin out_end in_begin)
               \<noteq> Some RangeError))"
proof -
  have nz: "out_end - out_begin \<noteq> 0" if "out_end <s out_begin"
    using that by (auto simp: word_sless_alt)
  have neg: "sint (out_end - out_begin) = sint out_end - sint out_begin
        \<and> sint (out_end - out_begin) < 0
        \<and> (0 \<le>s in_begin
             \<and> sint in_begin + (sint out_end - sint out_begin) \<le> sint (size inp) \<longrightarrow>
            in_begin + (out_end - out_begin) \<le>s size inp)"
    if inv: "out_end <s out_begin" and fit: "- 2147483648 \<le> sint out_end - sint out_begin"
  proof -
    from inv have lt: "sint out_end < sint out_begin" by (simp add: word_sless_alt)
    from lt fit have d: "sint (out_end - out_begin) = sint out_end - sint out_begin"
      by (intro sint_sub32) simp_all
    have "in_begin + (out_end - out_begin) \<le>s size inp"
      if ib: "0 \<le>s in_begin"
        and le: "sint in_begin + (sint out_end - sint out_begin) \<le> sint (size inp)"
    proof -
      from ib have "0 \<le> sint in_begin" by (simp add: word_sle_eq)
      with lt fit sint_bounds32 [of in_begin] d
      have "sint (in_begin + (out_end - out_begin)) =
          sint in_begin + (sint out_end - sint out_begin)"
        by (simp add: sint_add32)
      with le show ?thesis by (simp add: word_sle_eq)
    qed
    with d lt show ?thesis by simp
  qed
  have wrap: "sint (out_end - out_begin) = sint out_end - sint out_begin + 4294967296
        \<and> 0 < sint (out_end - out_begin)"
    if "out_end <s out_begin" and over: "sint out_end - sint out_begin < - 2147483648"
  proof -
    from sint_sub_wrap32 [OF over] sint_bounds32 [of out_end] sint_bounds32 [of out_begin]
    show ?thesis by simp
  qed
  have path: "(dtype out \<noteq> GDF_STRING_CATEGORY \<longrightarrow>
           copy_range kern reconcile m out inp out_begin out_end in_begin =
             kern m out (column_range_factory inp in_begin) out_begin out_end)
        \<and> ((\<forall>m' c f b e. fst (kern2 m' c f b e) \<noteq> Some RangeError) \<longrightarrow>
             fst (copy_range kern2 reconcile m out inp out_begin out_end in_begin)
               \<noteq> Some RangeError)"
    if inv: "out_end <s out_begin" and chk: "validate inp" "validate out"
      "dtype out = dtype inp" "0 \<le>s in_begin" "in_begin + (out_end - out_begin) \<le>s size inp"
  proof -
    from inv have ne: "out_begin \<noteq> out_end" by (auto simp: word_sless_alt)
    note pre = ne chk
    have plain: "copy_range kern reconcile m out inp out_begin out_end in_begin =
        kern m out (column_range_factory inp in_begin) out_begin out_end"
      if "dtype out \<noteq> GDF_STRING_CATEGORY"
      using pre that by (simp add: copy_range_plain_path)
    have norange:
      "fst (copy_range kern2 reconcile m out inp out_begin out_end in_begin) \<noteq> Some RangeError"
      if k: "\<forall>m' c f b e. fst (kern2 m' c f b e) \<noteq> Some RangeError"
    proof (cases "dtype out = GDF_STRING_CATEGORY")
      case False
      with pre k show ?thesis by (simp add: copy_range_plain_path)
    next
      case True
      obtain st m3 temp_out temp_in where
        r: "reconciliation reconcile m out inp = (st, m3, temp_out, temp_in)"
        by (cases "reconciliation reconcile m out inp") auto
      obtain e m4 t where
        kr: "kern2 m3 temp_out (column_range_factory temp_in in_begin) out_begin out_end
          = (e, m4, t)"
        by (cases "kern2 m3 temp_out (column_range_factory temp_in in_begin) out_begin out_end")
          auto
      from k have "fst (kern2 m3 temp_out (column_range_factory temp_in in_begin)
          out_begin out_end) \<noteq> Some RangeError"
        by blast
      with kr have "e \<noteq> Some RangeError" by simp
      with pre True r kr show ?thesis
        by (cases e) (simp_all add: copy_range_category_path)
    qed
    from plain norange show ?thesis by blast
  qed
  from nz neg wrap path show ?thesis by blast
qed

theorem copy_range_inverted_range_witness:
  "(1 :: 32 word) <s 3 \<and> (1 - 3 :: 32 word) \<noteq> 0
   \<and> - 2147483648 \<le> sint (1 :: 32 word) - sint (3 :: 32 word)
   \<and> sint (1 - 3 :: 32 word) = sint (1 :: 32 word) - sint (3 :: 32 word)
   \<and> sint (1 - 3 :: 32 word) < 0
   \<and> (0 :: 32 word) \<le>s 0
   \<and> sint (0 :: 32 word) + (sint (1 :: 32 word) - sint (3 :: 32 word))
       \<le> sint (size scenario_source)
   \<and> 0 + (1 - 3) \<le>s size scenario_source
   \<and> (- 2 :: 32 word) <s 2147483647
   \<and> sint (- 2 :: 32 word) - sint (2147483647 :: 32 word) < - 2147483648
   \<and> sint (- 2 - 2147483647 :: 32 word) =
       sint (- 2 :: 32 word) - sint (2147483647 :: 32 word) + 4294967296
   \<and> 0 < sint (- 2 - 2147483647 :: 32 word)
   \<and> validate scenario_source \<and> validate scenario_dest
   \<and> dtype scenario_dest = dtype scenario_source
   \<and> dtype scenario_dest \<noteq> GDF_STRING_CATEGORY
   \<and> copy_range detail_copy_range reconcile_union scenario_memory scenario_dest
         scenario_source 3 1 0 =
       detail_copy_range scenario_memory scenario_dest
         (column_range_factory scenario_source 0) 3 1
   \<and> fst (copy_range idle_kernel reconcile_union scenario_memory scenario_dest
         scenario_source 3 1 0) \<noteq> Some RangeError
   \<and> copy_range idle_kernel reconcile_union scenario_memory scenario_dest
         scenario_source 3 1 0 = (None, scenario_memory, scenario_dest)"
proof -
  have inv: "(1 :: 32 word) <s 3" "(- 2 :: 32 word) <s 2147483647"
    by (simp_all add: word_sless_alt)
  have fit: "- 2147483648 \<le> sint (1 :: 32 word) - sint (3 :: 32 word)"
    and over: "sint (- 2 :: 32 word) - sint (2147483647 :: 32 word) < - 2147483648"
    by simp_all
  have h: "validate scenario_source" "validate scenario_dest"
    "dtype scenario_dest = dtype scenario_source" "(0 :: 32 word) \<le>s 0"
    "sint (0 :: 32 word) + (sint (1 :: 32 word) - sint (3 :: 32 word))
       \<le> sint (size scenario_source)"
    by (simp_all add: fixture_defs validate_def word_sle_eq)
  have idle: "\<forall>m' c f b e. fst (idle_kernel m' c f b e) \<noteq> Some RangeError"
    by (simp add: idle_kernel_def)
  have plain: "dtype scenario_dest \<noteq> GDF_STRING_CATEGORY"
    by (simp add: scenario_dest_def)
  note inst = copy_range_inverted_range [where out_begin = 3 and out_end = 1
      and in_begin = 0 and inp = scenario_source and out = scenario_dest
      and reconcile = reconcile_union and m = scenario_memory and ?kern2.0 = idle_kernel]
  note wrapped = copy_range_inverted_range [where out_begin = 2147483647 and out_end = "- 2"]
  from inst [THEN conjunct1] inv(1) have nz: "(1 - 3 :: 32 word) \<noteq> 0" by blast
  from inst [THEN conjunct2, THEN conjunct1] inv(1) fit h(4,5)
  have n: "sint (1 - 3 :: 32 word) = sint (1 :: 32 word) - sint (3 :: 32 word)"
    "sint (1 - 3 :: 32 word) < 0" "0 + (1 - 3) \<le>s size scenario_source"
    by blast+
  from wrapped [THEN conjunct2, THEN conjunct2, THEN conjunct1] inv(2) over
  have w: "sint (- 2 - 2147483647 :: 32 word) =
       sint (- 2 :: 32 word) - sint (2147483647 :: 32 word) + 4294967296"
    "0 < sint (- 2 - 2147483647 :: 32 word)"
    by blast+
  from inst [where kern = detail_copy_range, THEN conjunct2, THEN conjunct2, THEN conjunct2]
    inv(1) h(1,2,3,4) n(3) plain idle
  have a: "copy_range detail_copy_range reconcile_union scenario_memory scenario_dest
         scenario_source 3 1 0 =
       detail_copy_range scenario_memory scenario_dest
         (column_range_factory scenario_source 0) 3 1"
    and b: "fst (copy_range idle_kernel reconcile_union scenario_memory scenario_dest
         scenario_source 3 1 0) \<noteq> Some RangeError"
    by blast+
  from inst [where kern = idle_kernel, THEN conjunct2, THEN conjunct2, THEN conjunct2]
    inv(1) h(1,2,3,4) n(3) plain
  have "copy_range idle_kernel reconcile_union scenario_memory scenario_dest
         scenario_source 3 1 0 =
      idle_kernel scenario_memory scenario_dest (column_range_factory scenario_source 0) 3 1"
    by blast
  then have c: "copy_range idle_kernel reconcile_union scenario_memory scenario_dest
         scenario_source 3 1 0 = (None, scenario_memory, scenario_dest)"
    by (simp add: idle_kernel_def)
  from inv fit over h nz n w plain a b c show ?thesis by blast
qed

text \<open>
  The claim as stated fails where the difference does not fit 32 bits: with
  \<open>out_begin = 2147483647\<close>, \<open>out_end = -2\<close> and \<open>in_begin = 0\<close> the range is
  inverted, but the computed count wraps around to \<open>2147483647\<close>, which is positive, and
  the source check rejects the call with \<open>RangeError\<close> before any kernel runs.
\<close>

theorem copy_range_wrapped_count_counterexample:
  "(- 2 :: 32 word) <s 2147483647
   \<and> validate scenario_source \<and> validate scenario_dest
   \<and> dtype scenario_dest = dtype scenario_source \<and> (0 :: 32 word) \<le>s 0
   \<and> sint ((- 2) - 2147483647 :: 32 word) = 2147483647
   \<and> \<not> (0 + ((- 2) - 2147483647) \<le>s size scenario_source)
   \<and> copy_range idle_kernel reconcile_union scenario_memory scenario_dest scenario_source
         2147483647 (- 2) 0 =
       (Some RangeError, scenario_memory, scenario_dest)"
  by (simp add: copy_range_def fixture_defs validate_def word_sle_eq word_sless_alt)

section \<open>The allocator's contract\<close>

text \<open>
  C8. \<^verbatim>\<open>rmmAlloc\<close> with a non-null out-pointer and size 0 writes a null pointer into
  the slot and returns success; with a null out-pointer and size 0 it returns success,
  leaves every slot as it was and does not call the device allocator (only the log event
  is recorded); with a null out-pointer and a nonzero size it returns
  \<open>RMM_ERROR_INVALID_ARGUMENT\<close>; when the device allocation reports
  \<open>cudaErrorMemoryAllocation\<close> it returns \<open>RMM_ERROR_OUT_OF_MEMORY\<close>, and for every
  other device failure \<open>RMM_ERROR_CUDA_ERROR\<close>, a different value.
\<close>

theorem rmmAlloc_contract:
  "(p \<noteq> 0 \<longrightarrow>
      fst (rmmAlloc cm st p 0) = RMM_SUCCESS \<and> slots (snd (rmmAlloc cm st p 0)) p = 0)
   \<and> rmmAlloc cm st 0 0 = (RMM_SUCCESS, log_record st Alloc 0 0)
   \<and> slots (snd (rmmAlloc cm st 0 0)) = slots st
   \<and> (sz \<noteq> 0 \<longrightarrow>
        fst (rmmAlloc cm st 0 sz) = RMM_ERROR_INVALID_ARGUMENT
        \<and> slots (snd (rmmAlloc cm st 0 sz)) = slots st)
   \<and> (p \<noteq> 0 \<and> sz \<noteq> 0 \<and> fst (cm_oom (slots st) p sz) = cudaErrorMemoryAllocation \<longrightarrow>
        fst (rmmAlloc cm_oom st p sz) = RMM_ERROR_OUT_OF_MEMORY)
   \<and> (p \<noteq> 0 \<and> sz \<noteq> 0 \<and> fst (cm_err (slots st) p sz) \<noteq> cudaErrorMemoryAllocation
        \<and> fst (cm_err (slots st) p sz) \<noteq> cudaSuccess \<longrightarrow>
        fst (rmmAlloc cm_err st p sz) = RMM_ERROR_CUDA_ERROR)
   \<and> RMM_ERROR_OUT_OF_MEMORY \<noteq> RMM_ERROR_CUDA_ERROR"
  by (simp add: rmmAlloc_def RMM_CHECK_CUDA_def log_record_def split: prod.splits)

theorem rmmAlloc_contract_witness:
  "fst (rmmAlloc (\<lambda>s q z. (cudaSuccess, s(q := 9))) \<lparr>slots = (\<lambda>_. 5), theLog = []\<rparr> 1 0)
     = RMM_SUCCESS
   \<and> slots (snd (rmmAlloc (\<lambda>s q z. (cudaSuccess, s(q := 9)))
                  \<lparr>slots = (\<lambda>_. 5), theLog = []\<rparr> 1 0)) 1 = 0
   \<and> fst (rmmAlloc (\<lambda>s q z. (cudaSuccess, s(q := 9))) \<lparr>slots = (\<lambda>_. 5), theLog = []\<rparr> 0 8)
     = RMM_ERROR_INVALID_ARGUMENT
   \<and> fst (rmmAlloc (\<lambda>s q z. (cudaErrorMemoryAllocation, s))
             \<lparr>slots = (\<lambda>_. 5), theLog = []\<rparr> 1 8) = RMM_ERROR_OUT_OF_MEMORY
   \<and> fst (rmmAlloc (\<lambda>s q z. (cudaErrorOther 30, s))
             \<lparr>slots = (\<lambda>_. 5), theLog = []\<rparr> 1 8) = RMM_ERROR_CUDA_ERROR"
  using rmmAlloc_contract [of 1 "\<lambda>s q z. (cudaSuccess, s(q := 9))"
      "\<lparr>slots = (\<lambda>_. 5), theLog = []\<rparr>" 8
      "\<lambda>s q z. (cudaErrorMemoryAllocation, s)" "\<lambda>s q z. (cudaErrorOther 30, s)"]
  by simp

end
